theory Spec2Isabelle
  imports
    Complex_Main
    "HOL-Library.Sublist"
    "HOL-Library.List_Lexorder"
    "HOL-Library.Char_ord"
    "HOL-Library.AList"
begin

section \<open>Python values\<close>

text \<open>
  A Python float is a finite number, one of the two infinities, or NaN. Finite values are
  read as the reals they denote, and a decimal literal such as \<open>0.8\<close> as that real: the
  comparisons below only ever compare a score with the literal it may be equal to, and
  both are then the same double. The comparison operators follow IEEE 754 as Python
  does: every ordered comparison with NaN is false.
\<close>

datatype pyfloat = Fin real | PInf | NInf | NaN

fun pf_lt :: "pyfloat \<Rightarrow> pyfloat \<Rightarrow> bool" where
  "pf_lt (Fin a) (Fin b) = (a < b)"
| "pf_lt (Fin a) PInf = True"
| "pf_lt NInf (Fin b) = True"
| "pf_lt NInf PInf = True"
| "pf_lt _ _ = False"

fun pf_le :: "pyfloat \<Rightarrow> pyfloat \<Rightarrow> bool" where
  "pf_le (Fin a) (Fin b) = (a \<le> b)"
| "pf_le (Fin a) PInf = True"
| "pf_le NInf (Fin b) = True"
| "pf_le NInf PInf = True"
| "pf_le NInf NInf = True"
| "pf_le PInf PInf = True"
| "pf_le _ _ = False"

text \<open>\<open>a > b\<close> is \<open>b < a\<close>; \<open>==\<close> on floats is false on NaN.\<close>

definition pf_gt :: "pyfloat \<Rightarrow> pyfloat \<Rightarrow> bool" where
  "pf_gt a b = pf_lt b a"

definition pf_eq :: "pyfloat \<Rightarrow> pyfloat \<Rightarrow> bool" where
  "pf_eq a b = (a \<noteq> NaN \<and> a = b)"

fun pf_abs :: "pyfloat \<Rightarrow> pyfloat" where
  "pf_abs (Fin a) = Fin \<bar>a\<bar>"
| "pf_abs PInf = PInf"
| "pf_abs NInf = PInf"
| "pf_abs NaN = NaN"

definition isnan :: "pyfloat \<Rightarrow> bool" where
  "isnan x = (x = NaN)"

definition isinf :: "pyfloat \<Rightarrow> bool" where
  "isinf x = (x = PInf \<or> x = NInf)"

text \<open>
  JSON-like values: what the result dictionaries of the service hold. A dictionary is an
  association list in insertion order; \<open>AList.update\<close> is Python's \<open>d[k] = v\<close>.
\<close>

datatype jval = JNull | JStr string | JNum pyfloat | JDict "(string \<times> jval) list"

type_synonym pydict = "(string \<times> jval) list"

text \<open>
  Exceptions. \<open>HTTPException status detail\<close> is FastAPI's; the other constructors are
  the Python and library exceptions the code can meet. \<open>LibraryError m\<close> is an exception
  raised inside a library with \<open>str(e) = m\<close>.
\<close>

datatype exn =
    HTTPException nat string
  | KeyError string
  | IndexError
  | TypeError
  | AttributeError string
  | LibraryError string

section \<open>The metric formatters\<close>

subsection \<open>String helpers: \<open>replace("_", " ")\<close> and \<open>title()\<close>\<close>

definition ascii_lower :: string where
  "ascii_lower = ''abcdefghijklmnopqrstuvwxyz''"

definition ascii_upper :: string where
  "ascii_upper = ''ABCDEFGHIJKLMNOPQRSTUVWXYZ''"

definition upper_char :: "char \<Rightarrow> char" where
  "upper_char c = (case map_of (zip ascii_lower ascii_upper) c of Some d \<Rightarrow> d | None \<Rightarrow> c)"

definition lower_char :: "char \<Rightarrow> char" where
  "lower_char c = (case map_of (zip ascii_upper ascii_lower) c of Some d \<Rightarrow> d | None \<Rightarrow> c)"

definition is_cased :: "char \<Rightarrow> bool" where
  "is_cased c = (c \<in> set ascii_lower \<or> c \<in> set ascii_upper)"

definition replace_underscores :: "string \<Rightarrow> string" where
  "replace_underscores s = map (\<lambda>c. if c = CHR ''_'' then CHR '' '' else c) s"

text \<open>
  \<open>str.title()\<close> on ASCII text: a cased character is upper-cased when the character
  before it is not cased, and lower-cased otherwise; other characters are kept. The flag
  is "the previous character is cased".
\<close>

fun title_from :: "bool \<Rightarrow> string \<Rightarrow> string" where
  "title_from prev [] = []"
| "title_from prev (c # cs) =
     (if is_cased c then (if prev then lower_char c else upper_char c) # title_from True cs
      else c # title_from False cs)"

definition py_title :: "string \<Rightarrow> string" where
  "py_title s = title_from False s"

definition display_name :: "string \<Rightarrow> string" where
  "display_name metric_name = py_title (replace_underscores metric_name)"

subsection \<open>\<open>main.py\<close>: the strict-threshold formatter\<close>

definition determine_metric_status :: "pyfloat \<Rightarrow> pyfloat \<Rightarrow> string \<Rightarrow> string" where
  "determine_metric_status score threshold metric_type =
     (if metric_type = ''disparate_impact''
      then (if pf_gt score threshold then ''pass'' else ''fail'')
      else (if pf_lt (pf_abs score) threshold then ''pass'' else ''fail''))"

text \<open>
  \<open>safe_float\<close>: the scores it receives are floats (\<open>calculate_bias_metrics\<close> builds each
  with \<open>float(...)\<close>), so the \<open>isinstance\<close> test holds. \<open>None\<close> is \<open>JNull\<close>.
\<close>

definition safe_float :: "pyfloat \<Rightarrow> jval" where
  "safe_float val = (if isnan val \<or> isinf val then JNull else JNum val)"

definition thresholds :: "(string \<times> pyfloat) list" where
  "thresholds =
     [(''statistical_disparity'', Fin (1 / 10)),
      (''disparate_impact'', Fin (8 / 10)),
      (''equal_opportunity'', Fin (1 / 10))]"

text \<open>
  \<open>format_results_for_output\<close> walks \<open>metrics.items()\<close> in order. \<open>thresholds[metric_name]\<close>
  raises \<open>KeyError\<close> on a name the table lacks, which ends the whole call.
\<close>

fun format_results_for_output :: "(string \<times> pyfloat) list \<Rightarrow> exn + pydict list" where
  "format_results_for_output [] = Inr []"
| "format_results_for_output ((metric_name, score) # metrics) =
     (case map_of thresholds metric_name of
        None \<Rightarrow> Inl (KeyError metric_name)
      | Some threshold \<Rightarrow>
          (case format_results_for_output metrics of
             Inl e \<Rightarrow> Inl e
           | Inr results \<Rightarrow>
               Inr ([(''metric_name'', JStr (display_name metric_name)),
                     (''score'', safe_float score),
                     (''threshold'', JNum threshold),
                     (''status'', JStr (determine_metric_status score threshold metric_name)),
                     (''demographic_group'', JStr ''overall'')] # results)))"

subsection \<open>\<open>utils.py\<close>: the range formatter\<close>

definition utils_thresholds :: "(string \<times> pyfloat) list" where
  "utils_thresholds =
     [(''statistical_disparity'', Fin (1 / 10)),
      (''disparate_impact'', Fin (8 / 10)),
      (''equal_opportunity_difference'', Fin (1 / 10)),
      (''average_odds_difference'', Fin (1 / 10))]"

definition utils_determine_metric_status :: "pyfloat \<Rightarrow> string \<Rightarrow> string \<times> pyfloat" where
  "utils_determine_metric_status metric_value metric_name =
     (let threshold = (case map_of utils_thresholds metric_name of
                         Some t \<Rightarrow> t | None \<Rightarrow> Fin (1 / 10));
          status =
            (if metric_name = ''disparate_impact''
             then (if pf_le (Fin (8 / 10)) metric_value \<and> pf_le metric_value (Fin (12 / 10))
                   then ''pass'' else ''fail'')
             else (if pf_lt (pf_abs metric_value) threshold then ''pass'' else ''fail''))
      in (status, threshold))"

definition utils_format_result :: "string \<Rightarrow> pyfloat \<Rightarrow> pydict" where
  "utils_format_result metric_name v =
     (let (status, threshold) = utils_determine_metric_status v metric_name
      in [(''metric_name'', JStr (display_name metric_name)),
          (''score'', JNum v),
          (''threshold'', JNum threshold),
          (''status'', JStr status),
          (''additional_data'', JDict [(''raw_value'', JNum v), (''threshold'', JNum threshold)])])"

definition utils_format_results_for_output :: "(string \<times> pyfloat) list \<Rightarrow> pydict list" where
  "utils_format_results_for_output metrics =
     map (\<lambda>(metric_name, v). utils_format_result metric_name v) metrics"

section \<open>Data frames\<close>

text \<open>
  A cell holds a string or a number (a missing value is the number NaN). A data frame is
  its column names, in order, and its rows; a row gives the cell of every column.
  \<open>pd.DataFrame(data)\<close> on a list of dictionaries takes the keys in order of first
  appearance as the columns and fills a key a row lacks with NaN.
\<close>

datatype cell = CStr string | CNum pyfloat

record dataframe =
  columns :: "string list"
  rows :: "(string \<Rightarrow> cell) list"

text \<open>\<open>unique\<close> keeps the first occurrence of every value, as \<open>Series.unique()\<close> does.\<close>

definition unique :: "'a list \<Rightarrow> 'a list" where
  "unique xs = rev (remdups (rev xs))"

definition DataFrame :: "(string \<times> cell) list list \<Rightarrow> dataframe" where
  "DataFrame data =
     \<lparr>columns = unique (concat (map (map fst) data)),
      rows = map (\<lambda>d c. case map_of d c of Some v \<Rightarrow> v | None \<Rightarrow> CNum NaN) data\<rparr>"

definition to_dict_records :: "dataframe \<Rightarrow> (string \<times> cell) list list" where
  "to_dict_records df = map (\<lambda>r. map (\<lambda>c. (c, r c)) (columns df)) (rows df)"

definition column :: "dataframe \<Rightarrow> string \<Rightarrow> cell list" where
  "column df c = map (\<lambda>r. r c) (rows df)"

text \<open>\<open>df[c] = df[c].map(f)\<close>, and \<open>df = df[~df[c].isna()]\<close>.\<close>

definition map_column :: "string \<Rightarrow> (cell \<Rightarrow> cell) \<Rightarrow> dataframe \<Rightarrow> dataframe" where
  "map_column c f df = df\<lparr>rows := map (\<lambda>r. r(c := f (r c))) (rows df)\<rparr>"

definition isna :: "cell \<Rightarrow> bool" where
  "isna c = (c = CNum NaN)"

definition dropna :: "string \<Rightarrow> dataframe \<Rightarrow> dataframe" where
  "dropna c df = df\<lparr>rows := filter (\<lambda>r. \<not> isna (r c)) (rows df)\<rparr>"

definition is_str :: "cell \<Rightarrow> bool" where
  "is_str c = (case c of CStr _ \<Rightarrow> True | CNum _ \<Rightarrow> False)"

text \<open>
  A group mapping, as the request carries it: per attribute, the keys \<open>privileged\<close> and
  \<open>unprivileged\<close>, each a string or a list of strings. \<open>None\<close> is no mapping at all.

  What the code takes from Python, pandas and numpy without this repository defining it:
  what \<open>eval\<close> makes of the mapping text of the batch endpoint, how a number prints (\<open>astype(str)\<close>), which strings \<open>pd.to_numeric\<close> reads as numbers,
  how a list, an array, a set and the column list print inside an f-string, and the
  text \<open>str(e)\<close> of an exception that is not an \<open>HTTPException\<close>.
\<close>

datatype gm_value = One string | Many "string list"

type_synonym group_mapping = "string \<rightharpoonup> gm_value"

type_synonym group_mappings = "(string \<rightharpoonup> group_mapping) option"

record pylib =
  py_eval :: "string \<Rightarrow> exn + (string \<rightharpoonup> group_mapping)"
  str_num :: "pyfloat \<Rightarrow> string"
  to_numeric :: "string \<Rightarrow> pyfloat option"
  fmt_list :: "cell list \<Rightarrow> string"
  fmt_array :: "cell list \<Rightarrow> string"
  fmt_set :: "cell list \<Rightarrow> string"
  fmt_columns :: "string list \<Rightarrow> string"
  exn_text :: "exn \<Rightarrow> string"

definition to_str :: "pylib \<Rightarrow> cell \<Rightarrow> string" where
  "to_str lib c = (case c of CStr s \<Rightarrow> s | CNum x \<Rightarrow> str_num lib x)"

definition numeric_cell :: "pylib \<Rightarrow> cell \<Rightarrow> pyfloat option" where
  "numeric_cell lib c = (case c of CNum x \<Rightarrow> Some x | CStr s \<Rightarrow> to_numeric lib s)"

text \<open>
  \<open>str(e)\<close>: Starlette's \<open>HTTPException.__str__\<close> gives \<open>"{status_code}: {detail}"\<close>.
\<close>

fun str_nat :: "nat \<Rightarrow> string" where
  "str_nat n =
     (if n < 10 then [''0123456789'' ! n]
      else str_nat (n div 10) @ [''0123456789'' ! (n mod 10)])"

declare str_nat.simps [simp del]

definition str_exn :: "pylib \<Rightarrow> exn \<Rightarrow> string" where
  "str_exn lib e =
     (case e of HTTPException status detail \<Rightarrow> str_nat status @ '': '' @ detail
      | _ \<Rightarrow> exn_text lib e)"

definition q :: string where
  "q = [CHR 0x27]"

section \<open>Preprocessing (\<open>main.py\<close>)\<close>

definition LABEL_CANDIDATES :: "string list" where
  "LABEL_CANDIDATES = [''label'', ''true_label'', ''target'']"

definition find_label_column :: "dataframe \<Rightarrow> exn + string" where
  "find_label_column df =
     (case filter (\<lambda>col. col \<in> set (columns df)) LABEL_CANDIDATES of
        col # _ \<Rightarrow> Inr col
      | [] \<Rightarrow> Inl (LibraryError
          (''No label column found. Expected one of: [''
             @ q @ ''label'' @ q @ '', '' @ q @ ''true_label'' @ q @ '', ''
             @ q @ ''target'' @ q @ '']'')))"

text \<open>
  \<open>LabelEncoder().fit_transform\<close> numbers the strings of a column by their position among
  the sorted distinct strings.
\<close>

definition index_of :: "'a list \<Rightarrow> 'a \<Rightarrow> nat" where
  "index_of xs x = length (takeWhile (\<lambda>y. y \<noteq> x) xs)"

definition label_encode :: "pylib \<Rightarrow> string \<Rightarrow> dataframe \<Rightarrow> dataframe" where
  "label_encode lib col df =
     (let classes = sort (remdups (map (to_str lib) (column df col)))
      in map_column col (\<lambda>c. CNum (Fin (real (index_of classes (to_str lib c))))) df)"

text \<open>
  \<open>try: df[col] = pd.to_numeric(df[col], errors='raise')\<close>, \<open>except:\<close> the label encoder.
\<close>

definition coerce_column :: "pylib \<Rightarrow> string \<Rightarrow> dataframe \<Rightarrow> dataframe" where
  "coerce_column lib col df =
     (if list_all (\<lambda>c. numeric_cell lib c \<noteq> None) (column df col)
      then map_column col (\<lambda>c. case numeric_cell lib c of Some x \<Rightarrow> CNum x | None \<Rightarrow> c) df
      else label_encode lib col df)"

definition encode_categoricals :: "pylib \<Rightarrow> dataframe \<Rightarrow> string list \<Rightarrow> dataframe" where
  "encode_categoricals lib df exclude =
     fold (\<lambda>col d. if col \<notin> set exclude \<and> list_ex is_str (column d col)
                    then coerce_column lib col d else d)
          (columns df) df"

subsection \<open>Sorting and comparing cells\<close>

text \<open>
  \<open>sorted\<close> on strings is the lexicographic order of their code points, which is the
  order of \<open>string\<close> here. A list that mixes strings and numbers makes \<open>sorted\<close> raise
  \<open>TypeError\<close>. Numbers are inserted one by one with Python's \<open><\<close>; this is the sorted
  list when no NaN is among them, and for two values it is what CPython returns in every
  case. (Preprocessing only ever sorts strings, or the two numbers 0.0 and 1.0.)
\<close>

fun num_insert :: "pyfloat \<Rightarrow> pyfloat list \<Rightarrow> pyfloat list" where
  "num_insert x [] = [x]"
| "num_insert x (y # ys) = (if pf_lt x y then x # y # ys else y # num_insert x ys)"

definition num_sorted :: "pyfloat list \<Rightarrow> pyfloat list" where
  "num_sorted xs = foldl (\<lambda>acc x. num_insert x acc) [] xs"

definition py_sorted :: "cell list \<Rightarrow> exn + cell list" where
  "py_sorted cs =
     (if list_all is_str cs then Inr (map CStr (sort [s. CStr s \<leftarrow> cs]))
      else if list_all (\<lambda>c. \<not> is_str c) cs then Inr (map CNum (num_sorted [x. CNum x \<leftarrow> cs]))
      else Inl TypeError)"

fun py_eq :: "cell \<Rightarrow> cell \<Rightarrow> bool" where
  "py_eq (CStr a) (CStr b) = (a = b)"
| "py_eq (CNum a) (CNum b) = pf_eq a b"
| "py_eq _ _ = False"

text \<open>\<open>x in values\<close> for a list of strings.\<close>

fun cell_in :: "cell \<Rightarrow> string list \<Rightarrow> bool" where
  "cell_in (CStr s) vs = (s \<in> set vs)"
| "cell_in (CNum x) vs = False"

definition as_list :: "gm_value \<Rightarrow> string list" where
  "as_list v = (case v of One s \<Rightarrow> [s] | Many ss \<Rightarrow> ss)"

text \<open>\<open>group_mappings and attr in group_mappings\<close>, then \<open>group_mappings[attr]\<close>.\<close>

definition lookup_mapping :: "group_mappings \<Rightarrow> string \<Rightarrow> group_mapping option" where
  "lookup_mapping gms attr = (case gms of None \<Rightarrow> None | Some m \<Rightarrow> m attr)"

subsection \<open>Encoding one protected attribute\<close>

definition both_present :: "cell list \<Rightarrow> bool" where
  "both_present vals = (CNum (Fin 1) \<in> set vals \<and> CNum (Fin 0) \<in> set vals)"

text \<open>
  Lines 170 to 194: the explicit mapping. Unmapped rows are dropped. On a frame without
  rows the mapped column has no float type and \<open>np.isnan\<close> of line 182 raises
  \<open>TypeError\<close>.
\<close>

definition map_explicit :: "pylib \<Rightarrow> string \<Rightarrow> group_mapping \<Rightarrow> dataframe \<Rightarrow> exn + dataframe" where
  "map_explicit lib attr mapping df =
     (case mapping ''privileged'' of
        None \<Rightarrow> Inl (KeyError ''privileged'')
      | Some pv \<Rightarrow>
     (case mapping ''unprivileged'' of
        None \<Rightarrow> Inl (KeyError ''unprivileged'')
      | Some uv \<Rightarrow>
          (let privileged_values = as_list pv;
               unprivileged_values = as_list uv;
               df1 = map_column attr
                       (\<lambda>x. if cell_in x privileged_values then CNum (Fin 1)
                            else if cell_in x unprivileged_values then CNum (Fin 0)
                            else CNum NaN) df;
               df2 = (if list_ex isna (column df1 attr) then dropna attr df1 else df1);
               unique_vals = unique (column df2 attr)
           in if rows df1 = [] then Inl TypeError
              else if \<not> both_present unique_vals
              then Inl (HTTPException 400
                     (''After mapping, both privileged (1.0) and unprivileged (0.0) values must exist in ''
                        @ q @ attr @ q @ ''. Found: '' @ fmt_array lib unique_vals))
              else Inr df2)))"

text \<open>The detail of line 200, for the sorted distinct values \<open>unique_values\<close>.\<close>

definition more_than_two_message :: "pylib \<Rightarrow> string \<Rightarrow> cell list \<Rightarrow> string" where
  "more_than_two_message lib attr unique_values =
     ''Protected attribute '' @ q @ attr @ q @ '' has more than two unique values: ''
        @ fmt_list lib unique_values
        @ ''. Please provide group_mappings for this attribute, e.g. ''
        @ q @ ''group_mappings'' @ q @ '': {'' @ q @ attr @ q @ '': {''
        @ q @ ''privileged'' @ q @ '': '' @ q @ ''VALUE1'' @ q @ '', ''
        @ q @ ''unprivileged'' @ q @ '': '' @ q @ ''VALUE2'' @ q @ ''}}.''"

text \<open>Lines 196 to 216: the fallback on the sorted distinct values.\<close>

definition map_fallback :: "pylib \<Rightarrow> string \<Rightarrow> dataframe \<Rightarrow> exn + dataframe" where
  "map_fallback lib attr df =
     (case py_sorted (unique (column df attr)) of
        Inl e \<Rightarrow> Inl e
      | Inr unique_values \<Rightarrow>
          if length unique_values > 2
          then Inl (HTTPException 400 (more_than_two_message lib attr unique_values))
          else if length unique_values < 2
          then Inl (HTTPException 400
                 (''Not enough unique values for protected attribute '' @ q @ attr @ q
                    @ ''. Found: '' @ fmt_list lib unique_values))
          else
            (let privileged_value = unique_values ! 0;
                 unprivileged_value = unique_values ! 1;
                 df1 = map_column attr
                         (\<lambda>x. if py_eq x privileged_value then CNum (Fin 1)
                              else if py_eq x unprivileged_value then CNum (Fin 0)
                              else CNum NaN) df;
                 unique_vals = unique (column df1 attr)
             in if list_ex isna (column df1 attr)
                then Inl (HTTPException 400
                       (''Found values in '' @ q @ attr @ q @ '' that are not in fallback mapping: ''
                          @ fmt_array lib (unique (filter isna (column df1 attr)))))
                else if \<not> both_present unique_vals
                then Inl (HTTPException 400
                       (''After fallback mapping, both privileged (1.0) and unprivileged (0.0) values must exist in ''
                          @ q @ attr @ q @ ''. Found: '' @ fmt_array lib unique_vals))
                else Inr df1))"

definition encode_protected :: "pylib \<Rightarrow> group_mappings \<Rightarrow> string \<Rightarrow> dataframe \<Rightarrow> exn + dataframe" where
  "encode_protected lib gms attr df =
     (case lookup_mapping gms attr of
        Some mapping \<Rightarrow> map_explicit lib attr mapping df
      | None \<Rightarrow> map_fallback lib attr df)"

text \<open>The loop of line 167 over the protected attributes; the first exception ends it.\<close>

fun encode_all :: "pylib \<Rightarrow> group_mappings \<Rightarrow> string list \<Rightarrow> dataframe \<Rightarrow> exn + dataframe" where
  "encode_all lib gms [] df = Inr df"
| "encode_all lib gms (attr # attrs) df =
     (if attr \<in> set (columns df)
      then (case encode_protected lib gms attr df of
              Inl e \<Rightarrow> Inl e
            | Inr df' \<Rightarrow> encode_all lib gms attrs df')
      else encode_all lib gms attrs df)"

text \<open>
  \<open>preprocess_data\<close>: protected columns to strings (the loop of line 148), the other
  columns to numbers (the loop of line 155), then the encoding loop. Every exception of the body, an \<open>HTTPException\<close> included, is caught by the
  function's own \<open>except Exception\<close> and raised again as status 400 with the text of the
  first.
\<close>

definition astype_str_all :: "pylib \<Rightarrow> string list \<Rightarrow> dataframe \<Rightarrow> dataframe" where
  "astype_str_all lib protected_attributes df =
     fold (\<lambda>attr d. if attr \<in> set (columns d)
                     then map_column attr (\<lambda>c. CStr (to_str lib c)) d else d)
          protected_attributes df"

definition coerce_others :: "pylib \<Rightarrow> string list \<Rightarrow> dataframe \<Rightarrow> dataframe" where
  "coerce_others lib protected_attributes df =
     fold (\<lambda>col d. if col \<notin> set protected_attributes then coerce_column lib col d else d)
          (columns df) df"

definition preprocess_data :: "pylib \<Rightarrow> dataframe \<Rightarrow> string list \<Rightarrow> group_mappings \<Rightarrow> exn + dataframe" where
  "preprocess_data lib df protected_attributes gms =
     (let df1 = astype_str_all lib protected_attributes df;
          df2 = coerce_others lib protected_attributes df1
      in case encode_all lib gms protected_attributes df2 of
           Inl e \<Rightarrow> Inl (HTTPException 400 (''Error preprocessing data: '' @ str_exn lib e))
         | Inr df3 \<Rightarrow> Inr df3)"

section \<open>Group detection, the dataset and the metrics (\<open>main.py\<close>)\<close>

type_synonym groups = "(string \<times> pyfloat) list list"

text \<open>
  Lines 360 to 369 of \<open>simple_detect_groups\<close>: the privileged and the unprivileged value of
  the fallback are the first two entries of \<open>df[attr].unique()\<close>, which is not sorted; with
  fewer than two the function raises.
\<close>

definition detect_fallback_values :: "cell list \<Rightarrow> (cell \<times> cell) option" where
  "detect_fallback_values unique_values =
     (if length unique_values < 2 then None
      else Some (unique_values ! 0, unique_values ! 1))"

definition simple_detect_groups ::
    "pylib \<Rightarrow> dataframe \<Rightarrow> string list \<Rightarrow> group_mappings \<Rightarrow> exn + (groups \<times> groups)" where
  "simple_detect_groups lib df protected_attributes gms =
     (case protected_attributes of
        [] \<Rightarrow> Inl (HTTPException 400 (''Error detecting groups: '' @ str_exn lib IndexError))
      | attr # _ \<Rightarrow>
          if attr \<notin> set (columns df)
          then Inl (HTTPException 400
                 (''Protected attribute '' @ q @ attr @ q @ '' not found in data columns: ''
                    @ fmt_columns lib (columns df)))
          else
            (let unique_values = unique (column df attr)
             in case lookup_mapping gms attr of
                  Some mapping \<Rightarrow>
                    if mapping ''privileged'' \<noteq> None \<and> mapping ''unprivileged'' \<noteq> None
                    then Inr ([[(attr, Fin 1)]], [[(attr, Fin 0)]])
                    else Inl (HTTPException 400
                           (''Invalid group mapping for '' @ attr @ ''. Must specify both ''
                              @ q @ ''privileged'' @ q @ '' and '' @ q @ ''unprivileged'' @ q
                              @ '' values.''))
                | None \<Rightarrow>
                    (case detect_fallback_values unique_values of
                       None \<Rightarrow> Inl (HTTPException 400
                           (''Not enough unique values for protected attribute '' @ q @ attr @ q
                              @ ''. Found: '' @ fmt_array lib unique_values))
                     | Some (privileged_value, unprivileged_value) \<Rightarrow>
                         Inr ([[(attr, Fin 1)]], [[(attr, Fin 0)]]))))"

text \<open>
  What \<open>simple_detect_groups\<close> writes to the log besides: its calls of \<open>logger.info\<close> and
  \<open>logger.error\<close> in order, each with the values its message formats (lines 317, 328,
  343, 349, 371 and 376, and the \<open>logger.error\<close> before each \<open>raise\<close>).
  \<open>simple_detect_groups_logged\<close> is the function with its log.
\<close>

datatype log_line =
    Detecting_groups string
  | Unique_values string "cell list"
  | Using_provided_mappings "string list" "string list"
  | Using_fallback_mapping cell cell
  | Created_groups groups groups
  | Log_error string

definition simple_detect_groups_logged ::
    "pylib \<Rightarrow> dataframe \<Rightarrow> string list \<Rightarrow> group_mappings
       \<Rightarrow> log_line list \<times> (exn + (groups \<times> groups))" where
  "simple_detect_groups_logged lib df protected_attributes gms =
     (case protected_attributes of
        [] \<Rightarrow> ([Log_error (''Error in simple group detection: '' @ str_exn lib IndexError)],
               Inl (HTTPException 400 (''Error detecting groups: '' @ str_exn lib IndexError)))
      | attr # _ \<Rightarrow>
          if attr \<notin> set (columns df)
          then (let detail_msg = ''Protected attribute '' @ q @ attr @ q
                                   @ '' not found in data columns: '' @ fmt_columns lib (columns df)
                in ([Detecting_groups attr, Log_error detail_msg],
                    Inl (HTTPException 400 detail_msg)))
          else
            (let unique_values = unique (column df attr);
                 log1 = [Detecting_groups attr, Unique_values attr unique_values]
             in case lookup_mapping gms attr of
                  Some mapping \<Rightarrow>
                    (case (mapping ''privileged'', mapping ''unprivileged'') of
                       (Some pv, Some uv) \<Rightarrow>
                         (log1 @ [Using_provided_mappings (as_list pv) (as_list uv),
                                  Created_groups [[(attr, Fin 1)]] [[(attr, Fin 0)]]],
                          Inr ([[(attr, Fin 1)]], [[(attr, Fin 0)]]))
                     | _ \<Rightarrow>
                         (let detail_msg = ''Invalid group mapping for '' @ attr
                                @ ''. Must specify both '' @ q @ ''privileged'' @ q @ '' and ''
                                @ q @ ''unprivileged'' @ q @ '' values.''
                          in (log1 @ [Log_error detail_msg], Inl (HTTPException 400 detail_msg))))
                | None \<Rightarrow>
                    (case detect_fallback_values unique_values of
                       None \<Rightarrow>
                         (let detail_msg = ''Not enough unique values for protected attribute ''
                                @ q @ attr @ q @ ''. Found: '' @ fmt_array lib unique_values
                          in (log1 @ [Log_error detail_msg], Inl (HTTPException 400 detail_msg)))
                     | Some (privileged_value, unprivileged_value) \<Rightarrow>
                         (log1 @ [Using_fallback_mapping privileged_value unprivileged_value,
                                  Created_groups [[(attr, Fin 1)]] [[(attr, Fin 0)]]],
                          Inr ([[(attr, Fin 1)]], [[(attr, Fin 0)]])))))"

text \<open>
  The dataset handed to the fairness library: the frame and the names and values the code
  passes to \<open>BinaryLabelDataset\<close>. The library itself is outside the repository: whether
  its constructor raises, and the two numbers its metric object computes (or the
  exception it raises), are taken as given.
\<close>

record dataset =
  ds_df :: dataframe
  label_names :: "string list"
  protected_attribute_names :: "string list"
  privileged_protected_attributes :: "pyfloat list list"
  unprivileged_protected_attributes :: "pyfloat list list"

record aif360 =
  dataset_error :: "dataset \<Rightarrow> string option"
  metric_values :: "dataset \<Rightarrow> groups \<Rightarrow> groups \<Rightarrow> string + (pyfloat \<times> pyfloat)"

text \<open>
  Lines 444 to 456: the check on the first protected attribute that is a column. Its
  \<open>HTTPException\<close> is caught by the surrounding \<open>except Exception\<close> and wrapped.
\<close>

definition check_protected ::
    "pylib \<Rightarrow> dataframe \<Rightarrow> string list \<Rightarrow> exn + (pyfloat list list \<times> pyfloat list list)" where
  "check_protected lib df protected_attributes =
     (case filter (\<lambda>attr. attr \<in> set (columns df)) protected_attributes of
        [] \<Rightarrow> Inr ([], [])
      | attr # _ \<Rightarrow>
          (let unique_bin = unique (column df attr)
           in if CNum (Fin 1) \<notin> set unique_bin \<or> CNum (Fin 0) \<notin> set unique_bin
              then Inl (HTTPException 400
                     (''Error processing protected attribute '' @ attr @ '': ''
                        @ str_exn lib (HTTPException 400
                            (''After preprocessing, both privileged (1.0) and unprivileged (0.0) values must exist in ''
                               @ q @ attr @ q @ ''. Found: '' @ fmt_set lib unique_bin))))
              else Inr ([[Fin 1]], [[Fin 0]])))"

definition create_dataset ::
    "pylib \<Rightarrow> aif360 \<Rightarrow> (string \<times> cell) list list \<Rightarrow> string list \<Rightarrow> group_mappings
       \<Rightarrow> exn + dataset" where
  "create_dataset lib aif data protected_attributes gms =
     (let df = DataFrame data
      in if length (columns df) < 2
         then Inl (HTTPException 400 ''Dataset must contain at least two columns'')
         else
           (case find_label_column df of
              Inl e \<Rightarrow> Inl (HTTPException 400 (''Error detecting label column: '' @ str_exn lib e))
            | Inr label_col \<Rightarrow>
           (case preprocess_data lib df protected_attributes gms of
              Inl e \<Rightarrow> Inl (HTTPException 400 (''Error preprocessing data: '' @ str_exn lib e))
            | Inr df1 \<Rightarrow>
                (let df2 = encode_categoricals lib df1 (protected_attributes @ [label_col])
                 in case check_protected lib df2 protected_attributes of
                      Inl e \<Rightarrow> Inl e
                    | Inr (priv, unpriv) \<Rightarrow>
                        (let ds = \<lparr>ds_df = df2,
                                   label_names = [label_col],
                                   protected_attribute_names = protected_attributes,
                                   privileged_protected_attributes = priv,
                                   unprivileged_protected_attributes = unpriv\<rparr>
                         in case dataset_error aif ds of
                              Some m \<Rightarrow> Inl (HTTPException 400
                                          (''Error creating BinaryLabelDataset: '' @ m))
                            | None \<Rightarrow> Inr ds)))))"

text \<open>
  \<open>calculate_bias_metrics\<close> replaces the groups it is given by the constant pair for the
  dataset's first protected attribute before it asks the library.
\<close>

definition calculate_bias_metrics ::
    "pylib \<Rightarrow> aif360 \<Rightarrow> dataset \<Rightarrow> groups \<Rightarrow> groups \<Rightarrow> exn + (string \<times> pyfloat) list" where
  "calculate_bias_metrics lib aif ds privileged_groups unprivileged_groups =
     (case protected_attribute_names ds of
        [] \<Rightarrow> Inl (HTTPException 400 (''Error calculating metrics: '' @ str_exn lib IndexError))
      | protected_attr # _ \<Rightarrow>
          (case metric_values aif ds [[(protected_attr, Fin 1)]] [[(protected_attr, Fin 0)]] of
             Inl m \<Rightarrow> Inl (HTTPException 400 (''Error calculating metrics: '' @ m))
           | Inr (mean_difference, disparate_impact) \<Rightarrow>
               Inr [(''statistical_disparity'', mean_difference),
                    (''disparate_impact'', disparate_impact)]))"

section \<open>The request handlers (\<open>main.py\<close>)\<close>

record request =
  req_data :: "(string \<times> cell) list list"
  req_protected_attributes :: "string list"
  req_privileged_groups :: "groups option"
  req_unprivileged_groups :: "groups option"
  req_group_mappings :: group_mappings

record response =
  resp_results :: "pydict list"
  resp_message :: string

definition analyze_bias :: "pylib \<Rightarrow> aif360 \<Rightarrow> request \<Rightarrow> exn + response" where
  "analyze_bias lib aif req =
     (if req_data req = [] then Inl (HTTPException 400 ''Empty dataset provided'')
      else if req_protected_attributes req = []
      then Inl (HTTPException 400 ''No protected attributes specified'')
      else
        (case create_dataset lib aif (req_data req) (req_protected_attributes req)
                (req_group_mappings req) of
           Inl e \<Rightarrow> Inl (HTTPException 400 (''Error creating dataset: '' @ str_exn lib e))
         | Inr ds \<Rightarrow>
        (case (case (req_privileged_groups req, req_unprivileged_groups req) of
                 (Some pg, Some ug) \<Rightarrow> Inr (pg, ug)
               | _ \<Rightarrow> simple_detect_groups lib (DataFrame (req_data req))
                        (req_protected_attributes req) (req_group_mappings req)) of
           Inl e \<Rightarrow> Inl (HTTPException 400 (''Error in group detection: '' @ str_exn lib e))
         | Inr (privileged_groups, unprivileged_groups) \<Rightarrow>
        (case calculate_bias_metrics lib aif ds privileged_groups unprivileged_groups of
           Inl e \<Rightarrow> Inl (HTTPException 500 (''Error calculating metrics: '' @ str_exn lib e))
         | Inr metrics \<Rightarrow>
        (case format_results_for_output metrics of
           Inl e \<Rightarrow> Inl (HTTPException 500 (''Error formatting results: '' @ str_exn lib e))
         | Inr formatted \<Rightarrow>
             Inr \<lparr>resp_results = formatted,
                  resp_message = ''Bias analysis completed successfully''\<rparr>)))))"

text \<open>
  \<open>run_bias_analysis\<close>, the helper of the file and batch endpoints: the frame becomes a
  request for its one protected attribute, and any exception of the analysis becomes a
  one-entry result list. \<open>loop_is_running\<close> is what
  \<open>asyncio.get_event_loop().is_running()\<close> returns where the helper is called. When it is
  false the helper runs the coroutine to its end (\<open>run_until_complete\<close>). When it is true
  the helper schedules the coroutine with \<open>ensure_future\<close> and polls \<open>response.done()\<close>,
  sleeping in between (lines 573 to 578); it never hands control back to the loop, so the
  future stays as \<open>ensure_future\<close> left it, pending. A call that does not return has the
  value \<open>None\<close>.
\<close>

datatype 'a future = Pending | Done 'a

partial_function (option) busy_wait :: "'a future \<Rightarrow> 'a option" where
  "busy_wait response =
     (case response of Done result \<Rightarrow> Some result | Pending \<Rightarrow> busy_wait response)"

definition run_bias_analysis ::
    "pylib \<Rightarrow> aif360 \<Rightarrow> bool \<Rightarrow> dataframe \<Rightarrow> string \<Rightarrow> group_mappings
       \<Rightarrow> pydict list option" where
  "run_bias_analysis lib aif loop_is_running df protected_attribute gms =
     (let req = \<lparr>req_data = to_dict_records df,
                 req_protected_attributes = [protected_attribute],
                 req_privileged_groups = None,
                 req_unprivileged_groups = None,
                 req_group_mappings = gms\<rparr>
      in case (if loop_is_running then busy_wait Pending
               else Some (analyze_bias lib aif req)) of
           None \<Rightarrow> None
         | Some (Inr result) \<Rightarrow> Some (resp_results result)
         | Some (Inl e) \<Rightarrow> Some [[(''error'', JStr (str_exn lib e))]])"

text \<open>
  \<open>analyze_folder\<close>. Its input is the upload's file name and what extraction leaves in the
  temporary directory: the names \<open>os.listdir\<close> gives, each with the outcome of the reader
  the code picks for that name (\<open>pd.read_csv\<close> or \<open>pd.read_excel\<close>): a frame, or the
  exception the reader raises. The reader runs before the \<open>try\<close> of lines 656 to 663, so
  only \<open>eval\<close> and the analysis are inside it. The handler is a coroutine, so the loop is
  running where it calls \<open>run_bias_analysis\<close>; a handler that does not return has the
  value \<open>None\<close>.
\<close>

definition is_data_file :: "string \<Rightarrow> bool" where
  "is_data_file fname = (suffix ''.csv'' fname \<or> suffix ''.xlsx'' fname \<or> suffix ''.xls'' fname)"

fun folder_loop ::
    "pylib \<Rightarrow> aif360 \<Rightarrow> string \<Rightarrow> string option \<Rightarrow> (string \<times> (exn + dataframe)) list
       \<Rightarrow> pydict list \<Rightarrow> (exn + pydict list) option" where
  "folder_loop lib aif protected_attribute gm_text [] acc = Some (Inr acc)"
| "folder_loop lib aif protected_attribute gm_text ((fname, content) # rest) acc =
     (if is_data_file fname
      then (case content of
              Inl e \<Rightarrow> Some (Inl e)
            | Inr df \<Rightarrow>
                (case (case gm_text of
                         None \<Rightarrow> Inr None
                       | Some t \<Rightarrow> if t = [] then Inr None
                                   else (case py_eval lib t of
                                           Inl e \<Rightarrow> Inl e
                                         | Inr m \<Rightarrow> Inr (Some m))) of
                   Inl e \<Rightarrow>
                     folder_loop lib aif protected_attribute gm_text rest
                       (acc @ [[(''file'', JStr fname), (''error'', JStr (str_exn lib e))]])
                 | Inr group_map \<Rightarrow>
                     (case run_bias_analysis lib aif True df protected_attribute group_map of
                        None \<Rightarrow> None
                      | Some file_results \<Rightarrow>
                          folder_loop lib aif protected_attribute gm_text rest
                            (acc @ map (AList.update ''file'' (JStr fname)) file_results))))
      else folder_loop lib aif protected_attribute gm_text rest acc)"

definition analyze_folder ::
    "pylib \<Rightarrow> aif360 \<Rightarrow> string \<Rightarrow> exn + (string \<times> (exn + dataframe)) list \<Rightarrow> string
       \<Rightarrow> string option \<Rightarrow> (exn + pydict list) option" where
  "analyze_folder lib aif filename extracted protected_attribute gm_text =
     (if \<not> suffix ''.zip'' (map lower_char filename)
      then Some (Inl (HTTPException 400 ''Only ZIP files are supported for folder upload.''))
      else (case extracted of
              Inl e \<Rightarrow> Some (Inl e)
            | Inr listing \<Rightarrow> folder_loop lib aif protected_attribute gm_text listing []))"

section \<open>The update scraper (\<open>model_updates_scraper.py\<close>)\<close>

subsection \<open>\<open>clean_summary\<close>\<close>

text \<open>
  \<open>re.sub('<[^<]+?>', '', s)\<close>: a match starts at a \<open><\<close> that is followed by at least one
  character other than \<open><\<close> and then, with no \<open><\<close> in between, by a \<open>>\<close>; it ends at
  the first such \<open>>\<close>. \<open>find_close\<close> scans what follows the first character after the
  \<open><\<close> and returns what is left after the closing \<open>>\<close>.
\<close>

fun find_close :: "string \<Rightarrow> string option" where
  "find_close [] = None"
| "find_close (c # cs) =
     (if c = CHR ''>'' then Some cs else if c = CHR ''<'' then None else find_close cs)"

lemma find_close_length: "find_close cs = Some rest \<Longrightarrow> length rest < length cs"
  by (induction cs) (auto split: if_splits)

function strip_tags :: "string \<Rightarrow> string" where
  "strip_tags [] = []"
| "strip_tags (c # cs) =
     (if c = CHR ''<''
      then (case cs of
              [] \<Rightarrow> [c]
            | d # ds \<Rightarrow>
                if d = CHR ''<'' then c # strip_tags cs
                else (case find_close ds of
                        Some rest \<Rightarrow> strip_tags rest
                      | None \<Rightarrow> c # strip_tags cs))
      else c # strip_tags cs)"
  by pat_completeness auto
termination
  by (relation "measure length") (auto dest: find_close_length)

text \<open>
  \<open>strip()\<close> removes white space at both ends. A character here is a code point below
  256; among these \<open>str.isspace\<close> holds of U+0009 to U+000D, U+001C to U+001F, the space,
  U+0085 and U+00A0. \<open>split('. ')[0]\<close> is the text before the first \<open>". "\<close>.
\<close>

definition is_space :: "char \<Rightarrow> bool" where
  "is_space c = (c \<in> set [CHR 0x09, CHR 0x0A, CHR 0x0B, CHR 0x0C, CHR 0x0D,
                          CHR 0x1C, CHR 0x1D, CHR 0x1E, CHR 0x1F, CHR '' '',
                          CHR 0x85, CHR 0xA0])"

definition py_strip :: "string \<Rightarrow> string" where
  "py_strip s = rev (dropWhile is_space (rev (dropWhile is_space s)))"

fun first_part :: "string \<Rightarrow> string" where
  "first_part [] = []"
| "first_part [c] = [c]"
| "first_part (c # d # cs) =
     (if c = CHR ''.'' \<and> d = CHR '' '' then [] else c # first_part (d # cs))"

definition clean_summary :: "string \<Rightarrow> string" where
  "clean_summary html_text =
     (let stripped = strip_tags html_text;
          part0 = first_part (py_strip stripped)
      in if part0 \<noteq> [] then part0 @ ''.'' else stripped)"

subsection \<open>\<open>scrape_model_updates\<close>\<close>

text \<open>
  Instants are microseconds since the epoch. A feed entry is what \<open>feedparser\<close> gives the
  loop: \<open>published_parsed\<close> is \<open>None\<close> when the attribute is missing or empty (the two cases
  \<open>getattr(e, 'published_parsed', None)\<close> folds into one), \<open>entry_title\<close> and \<open>entry_link\<close>
  are \<open>None\<close> when reading \<open>e.title\<close> or \<open>e.link\<close> raises \<open>AttributeError\<close>, and
  \<open>entry_summary\<close> and \<open>entry_description\<close> are the two \<open>getattr\<close> reads with their default
  \<open>''\<close>.
\<close>

type_synonym instant = int

datatype struct_time = StructTime int int int int int int int int int

record entry =
  published_parsed :: "struct_time option"
  entry_title :: "string option"
  entry_link :: "string option"
  entry_summary :: string
  entry_description :: string

record update_rec =
  frontier_model_id :: int
  title :: string
  description :: string
  update_type :: string
  source_url :: string
  update_date :: instant

text \<open>
  Outside the repository: \<open>quote_plus\<close>, the feed \<open>feedparser.parse\<close> returns for a URL, and
  \<open>datetime.fromtimestamp(time.mktime(t), tz=utc)\<close>, which is \<open>None\<close> when either call
  raises on a time out of range.
\<close>

record scraper_env =
  quote_plus :: "string \<Rightarrow> string"
  parse_feed :: "string \<Rightarrow> entry list"
  to_datetime :: "struct_time \<Rightarrow> instant option"

text \<open>
  The loop of lines 56 to 76 over the entries of one feed, \<open>count\<close> being the number of
  entries kept so far; it returns the records appended to \<open>results\<close>.
\<close>

fun scrape_entries ::
    "scraper_env \<Rightarrow> instant \<Rightarrow> int \<Rightarrow> int \<Rightarrow> string \<Rightarrow> entry list \<Rightarrow> int
       \<Rightarrow> exn + update_rec list" where
  "scrape_entries env cutoff max_results model_id utype [] count = Inr []"
| "scrape_entries env cutoff max_results model_id utype (e # es) count =
     (case published_parsed e of
        None \<Rightarrow> scrape_entries env cutoff max_results model_id utype es count
      | Some t \<Rightarrow>
          (case to_datetime env t of
             None \<Rightarrow> Inl (LibraryError ''timestamp out of range'')
           | Some published \<Rightarrow>
               if published < cutoff
               then scrape_entries env cutoff max_results model_id utype es count
               else
                 (let summary = clean_summary
                        (if entry_summary e \<noteq> [] then entry_summary e else entry_description e)
                  in case entry_title e of
                       None \<Rightarrow> Inl (AttributeError ''title'')
                     | Some ttl \<Rightarrow>
                         (case entry_link e of
                            None \<Rightarrow> Inl (AttributeError ''link'')
                          | Some lnk \<Rightarrow>
                              (let r = \<lparr>frontier_model_id = model_id,
                                        title = ttl,
                                        description = summary,
                                        update_type = utype,
                                        source_url = lnk,
                                        update_date = published\<rparr>
                               in if count + 1 \<ge> max_results then Inr [r]
                                  else (case scrape_entries env cutoff max_results model_id
                                               utype es (count + 1) of
                                          Inl x \<Rightarrow> Inl x
                                        | Inr rs \<Rightarrow> Inr (r # rs)))))))"

definition update_types :: "(string \<times> string) list" where
  "update_types =
     [(''security'', ''security incident vulnerability safety privacy''),
      (''feature'', ''feature update capability release'')]"

definition rss_url :: "scraper_env \<Rightarrow> string \<Rightarrow> string \<Rightarrow> string \<Rightarrow> string" where
  "rss_url env model_name provider phrase =
     ''https://news.google.com/rss/search?q=''
       @ quote_plus env (model_name @ '' '' @ provider @ '' AI '' @ phrase)"

text \<open>The first exception ends the run; nothing is returned then.\<close>

fun scrape_types ::
    "scraper_env \<Rightarrow> instant \<Rightarrow> int \<Rightarrow> (int \<times> string \<times> string) \<Rightarrow> (string \<times> string) list
       \<Rightarrow> exn + update_rec list" where
  "scrape_types env cutoff max_results m [] = Inr []"
| "scrape_types env cutoff max_results (model_id, model_name, provider) ((utype, phrase) # ts) =
     (case scrape_entries env cutoff max_results model_id utype
             (parse_feed env (rss_url env model_name provider phrase)) 0 of
        Inl x \<Rightarrow> Inl x
      | Inr rs \<Rightarrow>
          (case scrape_types env cutoff max_results (model_id, model_name, provider) ts of
             Inl x \<Rightarrow> Inl x
           | Inr rs' \<Rightarrow> Inr (rs @ rs')))"

fun scrape_models ::
    "scraper_env \<Rightarrow> instant \<Rightarrow> int \<Rightarrow> (int \<times> string \<times> string) list \<Rightarrow> exn + update_rec list" where
  "scrape_models env cutoff max_results [] = Inr []"
| "scrape_models env cutoff max_results (m # ms) =
     (case scrape_types env cutoff max_results m update_types of
        Inl x \<Rightarrow> Inl x
      | Inr rs \<Rightarrow>
          (case scrape_models env cutoff max_results ms of
             Inl x \<Rightarrow> Inl x
           | Inr rs' \<Rightarrow> Inr (rs @ rs')))"

text \<open>
  \<open>scrape_model_updates\<close>: \<open>models\<close> is what \<open>get_models_from_db\<close> reads, \<open>now\<close> the clock
  of line 37.
\<close>

definition microseconds_per_day :: int where
  "microseconds_per_day = 86400000000"

definition scrape_model_updates ::
    "scraper_env \<Rightarrow> (int \<times> string \<times> string) list \<Rightarrow> instant \<Rightarrow> int \<Rightarrow> int
       \<Rightarrow> exn + update_rec list" where
  "scrape_model_updates env models now days max_results =
     scrape_models env (now - days * microseconds_per_day) max_results models"

subsection \<open>\<open>insert_into_db\<close>\<close>

text \<open>
  The table \<open>frontier_model_updates\<close> is its rows in insertion order; \<open>source_url\<close> is its
  conflict key. A connection is the committed table, the table as the open transaction
  sees it, the \<open>INSERT\<close> statements sent so far (each with the rows of its \<open>VALUES\<close>
  list) and the number of commits.
\<close>

type_synonym table = "update_rec list"

record connection =
  committed :: table
  in_transaction :: table
  statements :: "update_rec list list"
  commits :: nat

text \<open>
  One proposed row under \<open>ON CONFLICT (source_url) DO UPDATE SET title = EXCLUDED.title,
  description = ..., update_type = ..., update_date = ...\<close>: a row with that \<open>source_url\<close>
  takes the four listed columns of the proposed row and keeps the others; without such a
  row the proposed row is inserted.
\<close>

definition do_update :: "update_rec \<Rightarrow> update_rec \<Rightarrow> update_rec" where
  "do_update x excluded =
     x\<lparr>title := title excluded, description := description excluded,
       update_type := update_type excluded, update_date := update_date excluded\<rparr>"

definition upsert_row :: "table \<Rightarrow> update_rec \<Rightarrow> table" where
  "upsert_row tbl r =
     (if source_url r \<in> source_url ` set tbl
      then map (\<lambda>x. if source_url x = source_url r then do_update x r else x) tbl
      else tbl @ [r])"

text \<open>
  One \<open>INSERT ... ON CONFLICT DO UPDATE\<close> statement. PostgreSQL refuses a statement whose
  proposed rows repeat a conflict key ("ON CONFLICT DO UPDATE command cannot affect row
  a second time"); the statement then changes nothing.
\<close>

definition exec_insert :: "table \<Rightarrow> update_rec list \<Rightarrow> exn + table" where
  "exec_insert tbl vals =
     (if distinct (map source_url vals) then Inr (foldl upsert_row tbl vals)
      else Inl (LibraryError ''ON CONFLICT DO UPDATE command cannot affect row a second time''))"

text \<open>
  \<open>execute_values(cur, sql, values)\<close> with psycopg2's default \<open>page_size=100\<close>: one
  statement per page of at most 100 rows, in order; an exception ends the call.
\<close>

function pages :: "nat \<Rightarrow> 'a list \<Rightarrow> 'a list list" where
  "pages n xs = (if n = 0 \<or> xs = [] then [] else take n xs # pages n (drop n xs))"
  by pat_completeness auto
termination
  by (relation "measure (\<lambda>(n, xs). length xs)") auto

declare pages.simps [simp del]

fun execute_pages :: "connection \<Rightarrow> update_rec list list \<Rightarrow> connection \<times> exn option" where
  "execute_pages conn [] = (conn, None)"
| "execute_pages conn (p # ps) =
     (let conn1 = conn\<lparr>statements := statements conn @ [p]\<rparr>
      in case exec_insert (in_transaction conn1) p of
           Inl e \<Rightarrow> (conn1, Some e)
         | Inr tbl \<Rightarrow> execute_pages (conn1\<lparr>in_transaction := tbl\<rparr>) ps)"

definition execute_values :: "connection \<Rightarrow> update_rec list \<Rightarrow> connection \<times> exn option" where
  "execute_values conn vals = execute_pages conn (pages 100 vals)"

text \<open>
  \<open>insert_into_db\<close>: nothing on an empty batch; otherwise the statements, then one commit.
  An exception of a statement leaves the function before \<open>conn.commit()\<close>.
\<close>

definition insert_into_db :: "connection \<Rightarrow> update_rec list \<Rightarrow> connection \<times> (exn + nat)" where
  "insert_into_db conn records =
     (if records = [] then (conn, Inr 0)
      else (case execute_values conn records of
              (conn1, Some e) \<Rightarrow> (conn1, Inl e)
            | (conn1, None) \<Rightarrow>
                (conn1\<lparr>committed := in_transaction conn1, commits := commits conn1 + 1\<rparr>,
                 Inr (length records))))"

section \<open>Worked inputs\<close>

text \<open>
  A column is binary when it holds nothing but 1.0 and 0.0.
\<close>

definition binary_column :: "dataframe \<Rightarrow> string \<Rightarrow> bool" where
  "binary_column df a = (set (column df a) \<subseteq> {CNum (Fin 1), CNum (Fin 0)})"

text \<open>
  An instance of the library functions for the worked examples (its printing functions
  write the strings of a list one after the other), and a small data set whose protected
  attribute \<open>race\<close> has the values \<open>b\<close>, \<open>a\<close>, \<open>b\<close> in row order.
\<close>

definition example_print :: "cell list \<Rightarrow> string" where
  "example_print cs = concat (map (\<lambda>c. case c of CStr s \<Rightarrow> s @ '' '' | CNum x \<Rightarrow> ''num '') cs)"

definition example_lib :: pylib where
  "example_lib =
     \<lparr>py_eval = (\<lambda>t. Inl (LibraryError ''invalid syntax'')),
      str_num = (\<lambda>x. ''num''),
      to_numeric = (\<lambda>s. None),
      fmt_list = example_print,
      fmt_array = example_print,
      fmt_set = example_print,
      fmt_columns = concat,
      exn_text = (\<lambda>e. ''error'')\<rparr>"

definition example_data :: "(string \<times> cell) list list" where
  "example_data =
     [[(''race'', CStr ''b''), (''label'', CNum (Fin 1))],
      [(''race'', CStr ''a''), (''label'', CNum (Fin 0))],
      [(''race'', CStr ''b''), (''label'', CNum (Fin 0))]]"

text \<open>
  Further worked inputs: rows with the values \<open>A\<close>, \<open>B\<close>, \<open>D\<close>, \<open>C\<close>, \<open>D\<close> and the
  mapping of claim C5.
\<close>

definition example_abcd :: "(string \<times> cell) list list" where
  "example_abcd =
     [[(''race'', CStr ''A''), (''label'', CNum (Fin 1))],
      [(''race'', CStr ''B''), (''label'', CNum (Fin 0))],
      [(''race'', CStr ''D''), (''label'', CNum (Fin 1))],
      [(''race'', CStr ''C''), (''label'', CNum (Fin 0))],
      [(''race'', CStr ''D''), (''label'', CNum (Fin 0))]]"

definition example_mapping :: group_mappings where
  "example_mapping =
     Some [''race'' \<mapsto> [''privileged'' \<mapsto> Many [''A''], ''unprivileged'' \<mapsto> Many [''B'', ''C'']]]"

text \<open>
  Rows with three distinct values, a fairness library that accepts every dataset and
  returns fixed numbers, and the request of the file and batch helper for given data.
\<close>

definition example_three :: "(string \<times> cell) list list" where
  "example_three =
     [[(''race'', CStr ''b''), (''label'', CNum (Fin 1))],
      [(''race'', CStr ''c''), (''label'', CNum (Fin 0))],
      [(''race'', CStr ''a''), (''label'', CNum (Fin 0))]]"

definition example_aif :: aif360 where
  "example_aif =
     \<lparr>dataset_error = (\<lambda>ds. None),
      metric_values = (\<lambda>ds pg ug. Inr (Fin (1 / 2), NaN))\<rparr>"

definition example_request :: "(string \<times> cell) list list \<Rightarrow> group_mappings \<Rightarrow> request" where
  "example_request data gms =
     \<lparr>req_data = data,
      req_protected_attributes = [''race''],
      req_privileged_groups = None,
      req_unprivileged_groups = None,
      req_group_mappings = gms\<rparr>"

text \<open>Rows whose protected attribute has one value only.\<close>

definition example_one :: "(string \<times> cell) list list" where
  "example_one =
     [[(''race'', CStr ''a''), (''label'', CNum (Fin 1))],
      [(''race'', CStr ''a''), (''label'', CNum (Fin 0))]]"

text \<open>The definitions a worked input is evaluated with.\<close>

lemmas eval_defs =
  create_dataset_def DataFrame_def unique_def find_label_column_def LABEL_CANDIDATES_def
  preprocess_data_def astype_str_all_def coerce_others_def coerce_column_def numeric_cell_def
  map_column_def column_def encode_protected_def lookup_mapping_def map_fallback_def
  py_sorted_def is_str_def isna_def both_present_def encode_categoricals_def
  check_protected_def example_lib_def example_aif_def to_str_def Let_def

text \<open>
  The content of an uploaded archive after extraction: the archive itself, a file
  \<open>a.csv\<close> that \<open>pd.read_csv\<close> rejects (an empty file, say) and the readable \<open>b.csv\<close>.
\<close>

definition example_listing :: "(string \<times> (exn + dataframe)) list" where
  "example_listing =
     [(''input.zip'', Inl (LibraryError ''not a table'')),
      (''a.csv'', Inl (LibraryError ''No columns to parse from file'')),
      (''b.csv'', Inr (DataFrame example_data))]"

text \<open>
  A feed of three entries: one without a publication time, one published before the
  cut-off and one inside the window. The example environment returns it for every URL
  and reads the year field of a time as the instant.
\<close>

definition example_feed :: "entry list" where
  "example_feed =
     [\<lparr>published_parsed = None, entry_title = None, entry_link = None,
       entry_summary = ''no date'', entry_description = ''''\<rparr>,
      \<lparr>published_parsed = Some (StructTime 10 1 1 0 0 0 0 1 0),
       entry_title = Some ''old'', entry_link = Some ''http://x/old'',
       entry_summary = ''Old news. More.'', entry_description = ''''\<rparr>,
      \<lparr>published_parsed = Some (StructTime 500 1 1 0 0 0 0 1 0),
       entry_title = Some ''new'', entry_link = Some ''http://x/new'',
       entry_summary = '''', entry_description = ''<b>Fresh</b> news. More.''\<rparr>]"

definition example_env :: scraper_env where
  "example_env =
     \<lparr>quote_plus = (\<lambda>s. s),
      parse_feed = (\<lambda>url. example_feed),
      to_datetime = (\<lambda>t. case t of StructTime y _ _ _ _ _ _ _ _ \<Rightarrow> Some y)\<rparr>"

text \<open>
  An entry has a time when \<open>published_parsed\<close> is set; a record is emitted from an entry
  when the entry has a time that converts to the record's date, not before the cut-off,
  and the record carries the entry's title and link and the model and category of the
  feed.
\<close>

definition has_timestamp :: "entry \<Rightarrow> bool" where
  "has_timestamp e = (published_parsed e \<noteq> None)"

definition emitted_from :: "scraper_env \<Rightarrow> instant \<Rightarrow> int \<Rightarrow> string \<Rightarrow> entry \<Rightarrow> update_rec \<Rightarrow> bool" where
  "emitted_from env cutoff model_id utype e r =
     (\<exists>t. published_parsed e = Some t
        \<and> to_datetime env t = Some (update_date r)
        \<and> cutoff \<le> update_date r
        \<and> entry_title e = Some (title r)
        \<and> entry_link e = Some (source_url r)
        \<and> frontier_model_id r = model_id
        \<and> update_type r = utype)"

text \<open>
  Records and connections for the writer: a record with a given key, title and model; a
  batch of \<open>n\<close> records with \<open>n\<close> different keys; a connection to an empty table and one to
  a table that holds the key \<open>u1\<close>.
\<close>

definition example_rec :: "string \<Rightarrow> string \<Rightarrow> int \<Rightarrow> update_rec" where
  "example_rec url ttl model =
     \<lparr>frontier_model_id = model, title = ttl, description = ''d'',
      update_type = ''feature'', source_url = url, update_date = 0\<rparr>"




section \<open>The metric formatters: results\<close>

lemma format_results_singleton:
  "map_of thresholds name = Some t \<Longrightarrow>
   format_results_for_output [(name, s)] =
     Inr [[(''metric_name'', JStr (display_name name)),
           (''score'', safe_float s),
           (''threshold'', JNum t),
           (''status'', JStr (determine_metric_status s t name)),
           (''demographic_group'', JStr ''overall'')]]"
  by simp

text \<open>
  Claim C1, as amended. For the metric \<open>disparate_impact\<close> the formatter of \<open>main.py\<close>
  reports \<open>pass\<close> exactly when the score is strictly greater than the threshold 0.8, and
  the formatter of \<open>utils.py\<close> exactly when the value lies in the closed range from 0.8 to
  1.2. At the score 0.8 itself the first reports \<open>fail\<close> and the second \<open>pass\<close>.
\<close>

theorem C1_disparate_impact_pass_rules:
  "format_results_for_output [(''disparate_impact'', s)] =
     Inr [[(''metric_name'', JStr ''Disparate Impact''),
           (''score'', safe_float s),
           (''threshold'', JNum (Fin (8 / 10))),
           (''status'', JStr (if pf_gt s (Fin (8 / 10)) then ''pass'' else ''fail'')),
           (''demographic_group'', JStr ''overall'')]]
   \<and> map (\<lambda>d. map_of d ''status'') (utils_format_results_for_output [(''disparate_impact'', s)]) =
       [Some (JStr (if pf_le (Fin (8 / 10)) s \<and> pf_le s (Fin (12 / 10)) then ''pass'' else ''fail''))]
   \<and> pf_gt (Fin r) (Fin (8 / 10)) = (8 / 10 < r)
   \<and> (pf_le (Fin (8 / 10)) (Fin r) \<and> pf_le (Fin r) (Fin (12 / 10))) = (8 / 10 \<le> r \<and> r \<le> 12 / 10)
   \<and> map (\<lambda>d. map_of d ''status'') (projr (format_results_for_output [(''disparate_impact'', Fin (8 / 10))]))
       = [Some (JStr ''fail'')]
   \<and> map (\<lambda>d. map_of d ''status'') (utils_format_results_for_output [(''disparate_impact'', Fin (8 / 10))])
       = [Some (JStr ''pass'')]"
proof -
  have name: "display_name ''disparate_impact'' = ''Disparate Impact''"
    by (simp add: display_name_def py_title_def replace_underscores_def is_cased_def
        upper_char_def lower_char_def ascii_lower_def ascii_upper_def)
  have t: "map_of thresholds ''disparate_impact'' = Some (Fin (8 / 10))"
    by (simp add: thresholds_def)
  have main: "format_results_for_output [(''disparate_impact'', s)] =
     Inr [[(''metric_name'', JStr ''Disparate Impact''),
           (''score'', safe_float s),
           (''threshold'', JNum (Fin (8 / 10))),
           (''status'', JStr (if pf_gt s (Fin (8 / 10)) then ''pass'' else ''fail'')),
           (''demographic_group'', JStr ''overall'')]]" for s
    unfolding format_results_singleton [OF t] name
    by (simp add: determine_metric_status_def)
  have utils: "map (\<lambda>d. map_of d ''status'') (utils_format_results_for_output [(''disparate_impact'', s)]) =
       [Some (JStr (if pf_le (Fin (8 / 10)) s \<and> pf_le s (Fin (12 / 10)) then ''pass'' else ''fail''))]" for s
    by (simp add: utils_format_results_for_output_def utils_format_result_def
        utils_determine_metric_status_def utils_thresholds_def)
  have a: "map (\<lambda>d. map_of d ''status'') (projr (format_results_for_output [(''disparate_impact'', Fin (8 / 10))]))
       = [Some (JStr ''fail'')]"
    unfolding main by (simp add: pf_gt_def)
  have b: "map (\<lambda>d. map_of d ''status'') (utils_format_results_for_output [(''disparate_impact'', Fin (8 / 10))])
       = [Some (JStr ''pass'')]"
    unfolding utils by simp
  show ?thesis
    using main [of s] utils [of s] a b by (simp add: pf_gt_def)
qed

text \<open>
  Claim C1 as stated fails: at the score 0.8 the strict-threshold formatter does not report
  \<open>pass\<close>, since \<open>0.8 > 0.8\<close> is false.
\<close>

theorem C1_strict_boundary_counterexample:
  "\<not> (map (\<lambda>d. map_of d ''status'')
         (projr (format_results_for_output [(''disparate_impact'', Fin (8 / 10))]))
        = [Some (JStr ''pass'')]
      \<and> map (\<lambda>d. map_of d ''status'')
         (utils_format_results_for_output [(''disparate_impact'', Fin (8 / 10))])
        = [Some (JStr ''pass'')])"
  by (simp add: thresholds_def determine_metric_status_def pf_gt_def)

lemma format_results_scores:
  "format_results_for_output metrics = Inr res \<Longrightarrow>
   map (\<lambda>d. map_of d ''score'') res = map (\<lambda>(name, s). Some (safe_float s)) metrics
   \<and> map (\<lambda>d. map_of d ''metric_name'') res = map (\<lambda>(name, s). Some (JStr (display_name name))) metrics"
  by (induction metrics arbitrary: res) (auto split: option.splits sum.splits)

lemma format_results_total:
  "fst ` set metrics \<subseteq> fst ` set thresholds \<Longrightarrow> \<exists>res. format_results_for_output metrics = Inr res"
proof (induction metrics)
  case Nil
  then show ?case by simp
next
  case (Cons m metrics)
  obtain name s where m: "m = (name, s)" by (cases m)
  from Cons.prems m have "name \<in> fst ` set thresholds" by simp
  then obtain t where t: "map_of thresholds name = Some t"
    by (metis domD dom_map_of_conv_image_fst)
  from Cons obtain res where "format_results_for_output metrics = Inr res" by auto
  with t m show ?case by simp
qed

lemma utils_format_score:
  "map_of (utils_format_result name v) ''score'' = Some (JNum v)"
  by (simp add: utils_format_result_def case_prod_beta)

text \<open>
  Claim C7, as amended. The formatter of \<open>main.py\<close>, on metrics whose names its threshold
  table knows (the two names \<open>calculate_bias_metrics\<close> produces are among them), returns
  one entry per metric, in order, whose score is null when the metric's score is NaN or
  an infinity and the score itself otherwise. The formatter of \<open>utils.py\<close> has no such
  step: its entries carry every score unchanged.
\<close>

theorem C7_null_score_in_main_formatter:
  assumes "fst ` set metrics \<subseteq> fst ` set thresholds"
  shows "(\<exists>res. format_results_for_output metrics = Inr res
            \<and> map (\<lambda>d. map_of d ''metric_name'') res
                = map (\<lambda>(name, s). Some (JStr (display_name name))) metrics
            \<and> map (\<lambda>d. map_of d ''score'') res
                = map (\<lambda>(name, s). Some (if s = NaN \<or> s = PInf \<or> s = NInf then JNull else JNum s)) metrics)
         \<and> map (\<lambda>d. map_of d ''score'') (utils_format_results_for_output metrics)
             = map (\<lambda>(name, s). Some (JNum s)) metrics"
proof -
  from assms obtain res where res: "format_results_for_output metrics = Inr res"
    using format_results_total by blast
  have sf: "safe_float s = (if s = NaN \<or> s = PInf \<or> s = NInf then JNull else JNum s)" for s
    by (simp add: safe_float_def isnan_def isinf_def)
  have u: "map (\<lambda>d. map_of d ''score'') (utils_format_results_for_output metrics)
             = map (\<lambda>(name, s). Some (JNum s)) metrics"
    by (induction metrics)
       (auto simp: utils_format_results_for_output_def utils_format_score)
  from format_results_scores [OF res] res u show ?thesis
    by (simp add: sf)
qed

theorem C7_null_score_witness:
  "fst ` set [(''statistical_disparity'', NaN), (''disparate_impact'', PInf)]
       \<subseteq> fst ` set thresholds
   \<and> map (\<lambda>d. map_of d ''score'')
        (projr (format_results_for_output [(''statistical_disparity'', NaN), (''disparate_impact'', PInf)]))
       = [Some JNull, Some JNull]
   \<and> map (\<lambda>d. map_of d ''score'')
        (utils_format_results_for_output [(''statistical_disparity'', NaN), (''disparate_impact'', PInf)])
       = [Some (JNum NaN), Some (JNum PInf)]"
proof -
  have h: "fst ` set [(''statistical_disparity'', NaN), (''disparate_impact'', PInf)]
       \<subseteq> fst ` set thresholds"
    by (simp add: thresholds_def)
  from C7_null_score_in_main_formatter [OF h] h show ?thesis
    by auto
qed

text \<open>
  Claim C7 as stated fails for the formatter of \<open>utils.py\<close>, one of the two the claim
  names: a NaN score is passed through as the entry's score.
\<close>

theorem C7_utils_formatter_counterexample:
  "\<not> (map (\<lambda>d. map_of d ''score'') (utils_format_results_for_output [(''disparate_impact'', NaN)])
        = [Some JNull])"
  by (simp add: utils_format_results_for_output_def utils_format_score)

section \<open>Data frames: basic facts\<close>

lemma set_unique [simp]: "set (unique xs) = set xs"
  by (simp add: unique_def)

lemma distinct_unique [simp]: "distinct (unique xs)"
  by (simp add: unique_def)

lemma columns_map_column [simp]: "columns (map_column c f df) = columns df"
  by (simp add: map_column_def)

lemma column_map_column:
  "column (map_column c f df) a = (if a = c then map f (column df c) else column df a)"
  by (simp add: map_column_def column_def)

lemma length_rows_map_column [simp]: "length (rows (map_column c f df)) = length (rows df)"
  by (simp add: map_column_def)

lemma columns_dropna [simp]: "columns (dropna c df) = columns df"
  by (simp add: dropna_def)

lemma column_dropna_subset: "set (column (dropna c df) a) \<subseteq> set (column df a)"
  by (auto simp: dropna_def column_def)

lemma column_dropna_self: "column (dropna c df) c = filter (\<lambda>x. \<not> isna x) (column df c)"
  by (simp add: dropna_def column_def filter_map comp_def)

lemma length_column [simp]: "length (column df a) = length (rows df)"
  by (simp add: column_def)

lemma columns_label_encode [simp]: "columns (label_encode lib c df) = columns df"
  by (simp add: label_encode_def Let_def)

lemma columns_coerce_column [simp]: "columns (coerce_column lib c df) = columns df"
  by (simp add: coerce_column_def)

lemma column_coerce_column_other:
  "a \<noteq> c \<Longrightarrow> column (coerce_column lib c df) a = column df a"
  by (simp add: coerce_column_def label_encode_def Let_def column_map_column)

lemma length_rows_coerce_column [simp]:
  "length (rows (coerce_column lib c df)) = length (rows df)"
  by (simp add: coerce_column_def label_encode_def Let_def)

lemma to_str_CStr [simp]: "to_str lib (CStr s) = s"
  by (simp add: to_str_def)

lemma astype_str_all_columns [simp]: "columns (astype_str_all lib attrs df) = columns df"
  unfolding astype_str_all_def by (induction attrs arbitrary: df) auto

lemma astype_str_all_rows [simp]: "length (rows (astype_str_all lib attrs df)) = length (rows df)"
  unfolding astype_str_all_def by (induction attrs arbitrary: df) auto

lemma astype_str_all_column:
  "column (astype_str_all lib attrs df) a =
     (if a \<in> set attrs \<and> a \<in> set (columns df)
      then map (\<lambda>c. CStr (to_str lib c)) (column df a) else column df a)"
  unfolding astype_str_all_def
proof (induction attrs arbitrary: df)
  case Nil
  then show ?case by simp
next
  case (Cons b attrs)
  show ?case
    by (auto simp: Cons.IH column_map_column comp_def)
qed

lemma fold_coerce_columns [simp]:
  "columns (fold (\<lambda>col d. if col \<notin> set ps then coerce_column lib col d else d) cols df) = columns df"
  by (induction cols arbitrary: df) auto

lemma fold_coerce_rows [simp]:
  "length (rows (fold (\<lambda>col d. if col \<notin> set ps then coerce_column lib col d else d) cols df))
     = length (rows df)"
  by (induction cols arbitrary: df) auto

lemma fold_coerce_column:
  "a \<in> set ps \<Longrightarrow>
   column (fold (\<lambda>col d. if col \<notin> set ps then coerce_column lib col d else d) cols df) a
     = column df a"
proof (induction cols arbitrary: df)
  case Nil
  then show ?case by simp
next
  case (Cons c cols)
  show ?case
  proof (cases "c \<in> set ps")
    case True
    with Cons show ?thesis by simp
  next
    case False
    with Cons.prems have "a \<noteq> c" by blast
    with False Cons show ?thesis by (simp add: column_coerce_column_other)
  qed
qed

lemma coerce_others_columns [simp]: "columns (coerce_others lib ps df) = columns df"
  by (simp add: coerce_others_def)

lemma coerce_others_rows [simp]: "length (rows (coerce_others lib ps df)) = length (rows df)"
  by (simp add: coerce_others_def)

lemma coerce_others_column:
  "a \<in> set ps \<Longrightarrow> column (coerce_others lib ps df) a = column df a"
  by (simp add: coerce_others_def fold_coerce_column)

section \<open>Encoding the protected attributes: results\<close>

lemma both_present_unique [simp]: "both_present (unique xs) = both_present xs"
  by (simp add: both_present_def)

lemma map_explicit_result:
  assumes "map_explicit lib attr mapping df = Inr df'"
  shows "columns df' = columns df \<and> binary_column df' attr \<and> both_present (column df' attr)
         \<and> (\<forall>a. a \<noteq> attr \<longrightarrow> set (column df' a) \<subseteq> set (column df a))"
proof -
  from assms obtain pv uv where pv: "mapping ''privileged'' = Some pv"
    and uv: "mapping ''unprivileged'' = Some uv"
    by (auto simp: map_explicit_def split: option.splits)
  define f where "f = (\<lambda>x. if cell_in x (as_list pv) then CNum (Fin 1)
                            else if cell_in x (as_list uv) then CNum (Fin 0) else CNum NaN)"
  define df1 where "df1 = map_column attr f df"
  define df2 where "df2 = (if list_ex isna (column df1 attr) then dropna attr df1 else df1)"
  from assms pv uv have r: "df' = df2" and bp: "both_present (column df2 attr)"
    by (auto simp: map_explicit_def Let_def f_def df1_def df2_def split: if_splits)
  have range: "set (column df1 attr) \<subseteq> {CNum (Fin 1), CNum (Fin 0), CNum NaN}"
    by (auto simp: df1_def column_map_column f_def)
  have nona: "\<not> list_ex isna (column df2 attr)"
    by (auto simp: df2_def column_dropna_self list_ex_iff)
  have sub: "set (column df2 a) \<subseteq> set (column df1 a)" for a
    using column_dropna_subset [of attr df1 a] by (auto simp: df2_def)
  have "set (column df2 attr) \<subseteq> {CNum (Fin 1), CNum (Fin 0)}"
    using range sub [of attr] nona by (auto simp: list_ex_iff isna_def)
  moreover have "columns df2 = columns df"
    by (simp add: df2_def df1_def)
  moreover have "a \<noteq> attr \<Longrightarrow> set (column df2 a) \<subseteq> set (column df a)" for a
    using sub [of a] by (simp add: df1_def column_map_column)
  ultimately show ?thesis
    using r bp by (simp add: binary_column_def)
qed

lemma map_fallback_result:
  assumes "map_fallback lib attr df = Inr df'"
  shows "columns df' = columns df \<and> binary_column df' attr \<and> both_present (column df' attr)
         \<and> (\<forall>a. a \<noteq> attr \<longrightarrow> column df' a = column df a)
         \<and> length (rows df') = length (rows df)"
proof -
  from assms obtain us where us: "py_sorted (unique (column df attr)) = Inr us"
    by (auto simp: map_fallback_def split: sum.splits)
  define f where "f = (\<lambda>x. if py_eq x (us ! 0) then CNum (Fin 1)
                            else if py_eq x (us ! Suc 0) then CNum (Fin 0) else CNum NaN)"
  define df1 where "df1 = map_column attr f df"
  from assms us have r: "df' = df1" and nona: "\<not> list_ex isna (column df1 attr)"
    and bp: "both_present (column df1 attr)"
    by (auto simp: map_fallback_def Let_def f_def df1_def split: if_splits)
  have range: "set (column df1 attr) \<subseteq> {CNum (Fin 1), CNum (Fin 0), CNum NaN}"
    by (auto simp: df1_def column_map_column f_def)
  have "set (column df1 attr) \<subseteq> {CNum (Fin 1), CNum (Fin 0)}"
    using range nona by (auto simp: list_ex_iff isna_def)
  then show ?thesis
    using r bp by (simp add: binary_column_def df1_def column_map_column)
qed

lemma encode_protected_result:
  assumes "encode_protected lib gms attr df = Inr df'"
  shows "columns df' = columns df \<and> binary_column df' attr \<and> both_present (column df' attr)
         \<and> (\<forall>a. a \<noteq> attr \<longrightarrow> set (column df' a) \<subseteq> set (column df a))"
proof (cases "lookup_mapping gms attr")
  case None
  with assms have "map_fallback lib attr df = Inr df'" by (simp add: encode_protected_def)
  from map_fallback_result [OF this] show ?thesis by auto
next
  case (Some mapping)
  with assms have "map_explicit lib attr mapping df = Inr df'" by (simp add: encode_protected_def)
  from map_explicit_result [OF this] show ?thesis by auto
qed

lemma encode_all_result:
  assumes "encode_all lib gms attrs df = Inr df'"
  shows "columns df' = columns df
         \<and> (\<forall>a. (a \<in> set attrs \<and> a \<in> set (columns df)) \<or> binary_column df a
                \<longrightarrow> binary_column df' a)"
  using assms
proof (induction attrs arbitrary: df)
  case Nil
  then show ?case by simp
next
  case (Cons b attrs)
  show ?case
  proof (cases "b \<in> set (columns df)")
    case False
    with Cons.prems have "encode_all lib gms attrs df = Inr df'" by simp
    from Cons.IH [OF this] False show ?thesis by auto
  next
    case True
    with Cons.prems obtain d where d: "encode_protected lib gms b df = Inr d"
      and rest: "encode_all lib gms attrs d = Inr df'"
      by (auto split: sum.splits)
    from encode_protected_result [OF d]
    have c: "columns d = columns df" and bb: "binary_column d b"
      and oth: "\<And>a. a \<noteq> b \<Longrightarrow> set (column d a) \<subseteq> set (column df a)"
      by auto
    have keep: "binary_column df a \<Longrightarrow> binary_column d a" for a
      using oth [of a] bb by (cases "a = b") (auto simp: binary_column_def)
    from Cons.IH [OF rest] c bb keep show ?thesis by auto
  qed
qed

lemma strs_of_map_CStr [simp]: "[s. CStr s \<leftarrow> map CStr xs] = xs"
  by (induction xs) auto

lemma list_all_is_str_map_CStr [simp]: "list_all is_str (map CStr xs)"
  by (induction xs) (auto simp: is_str_def)

lemma py_sorted_strings: "py_sorted (map CStr xs) = Inr (map CStr (sort xs))"
  by (simp only: py_sorted_def strs_of_map_CStr list_all_is_str_map_CStr if_True)

lemma remdups_map_inj: "inj f \<Longrightarrow> remdups (map f xs) = map f (remdups xs)"
  by (induction xs) (auto simp: inj_image_mem_iff)

lemma unique_map_inj: "inj f \<Longrightarrow> unique (map f xs) = map f (unique xs)"
  by (simp add: unique_def rev_map remdups_map_inj)

lemma inj_CStr: "inj CStr"
  by (simp add: inj_def)

lemma unique_Nil [simp]: "unique [] = []"
  by (simp add: unique_def)

lemma remdups_snoc: "remdups (ys @ [x]) = remdups (filter (\<lambda>y. y \<noteq> x) ys) @ [x]"
  by (induction ys) auto

lemma unique_Cons: "unique (x # xs) = x # unique (filter (\<lambda>y. y \<noteq> x) xs)"
proof -
  have "remdups (rev xs @ [x]) = remdups (filter (\<lambda>y. y \<noteq> x) (rev xs)) @ [x]"
    by (rule remdups_snoc)
  then show ?thesis
    by (simp add: unique_def rev_filter)
qed

lemma detect_fallback_values_first_seen:
  "detect_fallback_values (unique (v # vs)) =
     (case filter (\<lambda>x. x \<noteq> v) vs of [] \<Rightarrow> None | w # _ \<Rightarrow> Some (v, w))"
proof (cases "filter (\<lambda>x. x \<noteq> v) vs")
  case Nil
  then show ?thesis by (simp add: unique_Cons detect_fallback_values_def)
next
  case (Cons w ws)
  then show ?thesis by (simp add: unique_Cons detect_fallback_values_def)
qed

lemma sorted_pair:
  assumes "sort (unique strs) = [p, u]"
  shows "p < u \<and> set strs = {p, u}"
proof -
  have "sorted (sort (unique strs))" "distinct (sort (unique strs))" by simp_all
  with assms have "p \<le> u" "p \<noteq> u" by auto
  moreover have "set (sort (unique strs)) = set strs" by simp
  ultimately show ?thesis using assms by auto
qed

lemma map_fallback_strings_two:
  assumes col: "column df attr = map CStr strs" and two: "sort (unique strs) = [p, u]"
  shows "\<exists>df'. map_fallback lib attr df = Inr df'
              \<and> column df' attr = map (\<lambda>s. if s = p then CNum (Fin 1) else CNum (Fin 0)) strs"
proof -
  from sorted_pair [OF two] have pu: "p \<noteq> u" and mem: "set strs = {p, u}" by auto
  have us: "py_sorted (unique (column df attr)) = Inr [CStr p, CStr u]"
    by (simp add: col unique_map_inj [OF inj_CStr] py_sorted_strings two)
  define f where "f = (\<lambda>x. if py_eq x (CStr p) then CNum (Fin 1)
                            else if py_eq x (CStr u) then CNum (Fin 0) else CNum NaN)"
  have fp: "f (CStr p) = CNum (Fin 1)"
    by (simp add: f_def)
  have fu: "f (CStr u) = CNum (Fin 0)"
    using pu by (simp add: f_def)
  have pt: "f (CStr s) = (if s = p then CNum (Fin 1) else CNum (Fin 0))" if "s \<in> set strs" for s
  proof (cases "s = p")
    case True
    then show ?thesis by (simp add: fp)
  next
    case False
    with that mem have "s = u" by blast
    with False show ?thesis by (simp add: fu)
  qed
  have fs: "map f (map CStr strs) = map (\<lambda>s. if s = p then CNum (Fin 1) else CNum (Fin 0)) strs"
    unfolding map_map by (rule map_cong [OF refl]) (simp only: comp_def pt)
  have c1: "column (map_column attr f df) attr
              = map (\<lambda>s. if s = p then CNum (Fin 1) else CNum (Fin 0)) strs"
    by (simp only: column_map_column col fs simp_thms if_True)
  have nona: "\<not> list_ex isna (column (map_column attr f df) attr)"
    unfolding c1 by (auto simp: list_ex_iff isna_def)
  have "p \<in> set strs" "u \<in> set strs" using mem by auto
  then have bp: "both_present (column (map_column attr f df) attr)"
    unfolding c1 both_present_def using pu by (auto simp: image_iff) 
  have "map_fallback lib attr df = Inr (map_column attr f df)"
    using nona bp by (simp add: map_fallback_def us Let_def f_def)
  with c1 show ?thesis by blast
qed

lemma map_fallback_strings_Inr:
  assumes col: "column df attr = map CStr strs" and ok: "map_fallback lib attr df = Inr df'"
  shows "\<exists>p u. sort (unique strs) = [p, u]"
proof -
  have us: "py_sorted (unique (column df attr)) = Inr (map CStr (sort (unique strs)))"
    by (simp add: col unique_map_inj [OF inj_CStr] py_sorted_strings)
  from ok have "length (sort (unique strs)) = 2"
    by (auto simp: map_fallback_def us Let_def split: if_splits)
  then show ?thesis
    by (cases "sort (unique strs)" rule: list.exhaust)
       (auto simp: length_Suc_conv)
qed

lemma map_fallback_strings_many:
  assumes col: "column df attr = map CStr strs" and many: "2 < length (unique strs)"
  shows "map_fallback lib attr df
           = Inl (HTTPException 400 (more_than_two_message lib attr (map CStr (sort (unique strs)))))"
proof -
  have us: "py_sorted (unique (column df attr)) = Inr (map CStr (sort (unique strs)))"
    by (simp add: col unique_map_inj [OF inj_CStr] py_sorted_strings)
  show ?thesis
    using many by (simp add: map_fallback_def us)
qed

lemma example_columns: "columns (DataFrame example_data) = [''race'', ''label'']"
  by (simp add: DataFrame_def example_data_def unique_def)

lemma example_race: "column (DataFrame example_data) ''race'' = [CStr ''b'', CStr ''a'', CStr ''b'']"
  by (simp add: DataFrame_def example_data_def column_def)

lemma preprocess_single:
  assumes "attr \<in> set (columns df)"
  shows "\<exists>df2. columns df2 = columns df
           \<and> length (rows df2) = length (rows df)
           \<and> column df2 attr = map CStr (map (to_str lib) (column df attr))
           \<and> preprocess_data lib df [attr] gms =
               (case encode_protected lib gms attr df2 of
                  Inl e \<Rightarrow> Inl (HTTPException 400 (''Error preprocessing data: '' @ str_exn lib e))
                | Inr d \<Rightarrow> Inr d)"
proof -
  define df2 where "df2 = coerce_others lib [attr] (astype_str_all lib [attr] df)"
  have "column df2 attr = map CStr (map (to_str lib) (column df attr))"
    using assms by (simp add: df2_def coerce_others_column astype_str_all_column)
  moreover have "columns df2 = columns df" "length (rows df2) = length (rows df)"
    by (simp_all add: df2_def)
  moreover have "preprocess_data lib df [attr] gms =
               (case encode_protected lib gms attr df2 of
                  Inl e \<Rightarrow> Inl (HTTPException 400 (''Error preprocessing data: '' @ str_exn lib e))
                | Inr d \<Rightarrow> Inr d)"
    using assms by (simp add: preprocess_data_def Let_def df2_def [symmetric] \<open>columns df2 = columns df\<close>
        split: sum.splits)
  ultimately show ?thesis by blast
qed

text \<open>
  The fallback of \<open>preprocess_data\<close>, for a request with one protected attribute and no
  mapping for it: the function succeeds exactly when the attribute has two distinct
  values (as strings), and it then maps the lexicographically smaller one to 1.0
  (privileged) and the other to 0.0 (unprivileged).
\<close>

lemma preprocess_fallback_sorted:
  assumes "attr \<in> set (columns df)" and "lookup_mapping gms attr = None"
  shows "(\<forall>df'. preprocess_data lib df [attr] gms = Inr df' \<longrightarrow>
            (\<exists>p u. sort (unique (map (to_str lib) (column df attr))) = [p, u] \<and> p < u
                 \<and> column df' attr
                      = map (\<lambda>c. if to_str lib c = p then CNum (Fin 1) else CNum (Fin 0))
                          (column df attr)))
       \<and> (\<forall>p u. sort (unique (map (to_str lib) (column df attr))) = [p, u] \<longrightarrow>
            (\<exists>df'. preprocess_data lib df [attr] gms = Inr df'))"
proof -
  define strs where "strs = map (to_str lib) (column df attr)"
  from preprocess_single [OF assms(1), of lib gms] obtain df2 where
    col: "column df2 attr = map CStr strs"
    and pre: "preprocess_data lib df [attr] gms =
               (case map_fallback lib attr df2 of
                  Inl e \<Rightarrow> Inl (HTTPException 400 (''Error preprocessing data: '' @ str_exn lib e))
                | Inr d \<Rightarrow> Inr d)"
    by (auto simp: encode_protected_def assms(2) strs_def)
  have a: "\<exists>p u. sort (unique strs) = [p, u] \<and> p < u
                 \<and> column df' attr
                      = map (\<lambda>c. if to_str lib c = p then CNum (Fin 1) else CNum (Fin 0))
                          (column df attr)"
    if ok: "preprocess_data lib df [attr] gms = Inr df'" for df'
  proof -
    from ok pre have mf: "map_fallback lib attr df2 = Inr df'"
      by (auto split: sum.splits)
    from map_fallback_strings_Inr [OF col mf] obtain p u where two: "sort (unique strs) = [p, u]"
      by blast
    from map_fallback_strings_two [OF col two, of lib] mf
    have "column df' attr = map (\<lambda>s. if s = p then CNum (Fin 1) else CNum (Fin 0)) strs"
      by auto
    then have "column df' attr
                = map (\<lambda>c. if to_str lib c = p then CNum (Fin 1) else CNum (Fin 0)) (column df attr)"
      by (simp add: strs_def comp_def)
    with two sorted_pair [OF two] show ?thesis by blast
  qed
  have b: "\<exists>df'. preprocess_data lib df [attr] gms = Inr df'"
    if two: "sort (unique strs) = [p, u]" for p u
    using map_fallback_strings_two [OF col two, of lib] pre by auto
  from a b show ?thesis
    unfolding strs_def [symmetric] by simp
qed

text \<open>
  The fallback of \<open>simple_detect_groups\<close> does not sort: its privileged value is the
  value of the first row, its unprivileged value the first value after it that differs.
  It writes the two to the log and returns the constant groups.
\<close>

lemma simple_detect_groups_logged_result:
  "snd (simple_detect_groups_logged lib df protected_attributes gms)
     = simple_detect_groups lib df protected_attributes gms"
  by (simp add: simple_detect_groups_logged_def simple_detect_groups_def Let_def
      split: list.splits option.splits prod.splits)

lemma simple_detect_groups_logged_fallback:
  assumes "attr \<in> set (columns df)" and "lookup_mapping gms attr = None"
    and "column df attr = v # vs" and "filter (\<lambda>x. x \<noteq> v) vs = w # ws"
  shows "simple_detect_groups_logged lib df (attr # rest) gms
           = ([Detecting_groups attr, Unique_values attr (unique (v # vs)),
               Using_fallback_mapping v w,
               Created_groups [[(attr, Fin 1)]] [[(attr, Fin 0)]]],
              Inr ([[(attr, Fin 1)]], [[(attr, Fin 0)]]))"
  using assms
  by (simp add: simple_detect_groups_logged_def Let_def detect_fallback_values_first_seen)

text \<open>
  Claim C3 fails in \<open>simple_detect_groups\<close>, one of the two code paths it names. The
  request has the rows \<open>b\<close>, \<open>a\<close>, \<open>b\<close> of \<open>race\<close>, the one protected attribute, and no
  mapping. \<open>preprocess_data\<close> sorts: it encodes \<open>a\<close> as 1.0 (privileged) and \<open>b\<close> as 0.0.
  \<open>simple_detect_groups\<close>, on the same rows in the same request, takes \<open>b\<close> as the
  privileged and \<open>a\<close> as the unprivileged value, and says so in the log, while the group
  \<open>{race: 1.0}\<close> it returns denotes \<open>a\<close>.
\<close>

theorem C3_detect_groups_fallback_first_seen:
  "column (DataFrame example_data) ''race'' = [CStr ''b'', CStr ''a'', CStr ''b'']
   \<and> sort (unique [''b'', ''a'', ''b'']) = [''a'', ''b'']
   \<and> map_sum id (\<lambda>df'. column df' ''race'')
         (preprocess_data example_lib (DataFrame example_data) [''race''] None)
       = Inr [CNum (Fin 0), CNum (Fin 1), CNum (Fin 0)]
   \<and> simple_detect_groups_logged example_lib (DataFrame example_data) [''race''] None
       = ([Detecting_groups ''race'', Unique_values ''race'' [CStr ''b'', CStr ''a''],
           Using_fallback_mapping (CStr ''b'') (CStr ''a''),
           Created_groups [[(''race'', Fin 1)]] [[(''race'', Fin 0)]]],
          Inr ([[(''race'', Fin 1)]], [[(''race'', Fin 0)]]))
   \<and> simple_detect_groups example_lib (DataFrame example_data) [''race''] None
       = Inr ([[(''race'', Fin 1)]], [[(''race'', Fin 0)]])"
proof -
  have h1: "''race'' \<in> set (columns (DataFrame example_data))"
    by (simp add: example_columns)
  have h2: "lookup_mapping None ''race'' = None"
    by (simp add: lookup_mapping_def)
  have s: "sort (unique (map (to_str example_lib) (column (DataFrame example_data) ''race'')))
             = [''a'', ''b'']"
    by (simp add: example_race unique_def)
  have s': "sort (unique [''b'', ''a'', ''b'']) = [''a'', ''b'']"
    by (simp add: unique_def)
  note t = preprocess_fallback_sorted [OF h1 h2, of example_lib]
  from t s obtain df' where
    ok: "preprocess_data example_lib (DataFrame example_data) [''race''] None = Inr df'"
    by blast
  with t s have c: "column df' ''race'' = [CNum (Fin 0), CNum (Fin 1), CNum (Fin 0)]"
    by (auto simp: example_race)
  have l: "simple_detect_groups_logged example_lib (DataFrame example_data) [''race''] None
       = ([Detecting_groups ''race'', Unique_values ''race'' (unique [CStr ''b'', CStr ''a'', CStr ''b'']),
           Using_fallback_mapping (CStr ''b'') (CStr ''a''),
           Created_groups [[(''race'', Fin 1)]] [[(''race'', Fin 0)]]],
          Inr ([[(''race'', Fin 1)]], [[(''race'', Fin 0)]]))"
    by (rule simple_detect_groups_logged_fallback [OF h1 h2 example_race]) simp
  have u: "unique [CStr ''b'', CStr ''a'', CStr ''b''] = [CStr ''b'', CStr ''a'']"
    by (simp add: unique_def)
  have g: "simple_detect_groups example_lib (DataFrame example_data) [''race''] None
       = Inr ([[(''race'', Fin 1)]], [[(''race'', Fin 0)]])"
    using l by (simp add: simple_detect_groups_logged_result [symmetric])
  show ?thesis
    using l g by (simp add: example_race s' ok c u)
qed

section \<open>Group detection: results\<close>

text \<open>
  Claim C10. Whenever \<open>simple_detect_groups\<close> returns, it returns the pair
  \<open>[{attr: 1.0}]\<close>, \<open>[{attr: 0.0}]\<close> for the first protected attribute, whatever the
  data and the mapping are; and \<open>calculate_bias_metrics\<close> gives the same result for every
  pair of groups it is handed.
\<close>

theorem C10_detected_groups_constant:
  assumes "simple_detect_groups lib df protected_attributes gms = Inr (pg, ug)"
  shows "protected_attributes \<noteq> []
         \<and> pg = [[(hd protected_attributes, Fin 1)]]
         \<and> ug = [[(hd protected_attributes, Fin 0)]]
         \<and> calculate_bias_metrics lib aif ds pg ug = calculate_bias_metrics lib aif ds pg' ug'"
proof -
  have m: "calculate_bias_metrics lib aif ds pg ug = calculate_bias_metrics lib aif ds pg' ug'"
    by (simp add: calculate_bias_metrics_def)
  from assms have "protected_attributes \<noteq> []
         \<and> pg = [[(hd protected_attributes, Fin 1)]]
         \<and> ug = [[(hd protected_attributes, Fin 0)]]"
    by (auto simp: simple_detect_groups_def Let_def
        split: list.splits if_splits option.splits prod.splits)
  with m show ?thesis by blast
qed

text \<open>On the worked data set both the fallback branch and an explicit mapping (whose
  values do not even occur in the data) return the same groups.\<close>

theorem C10_detected_groups_witness:
  "simple_detect_groups example_lib (DataFrame example_data) [''race''] None
     = Inr ([[(''race'', Fin 1)]], [[(''race'', Fin 0)]])
   \<and> simple_detect_groups example_lib (DataFrame example_data) [''race'']
       (Some [''race'' \<mapsto> [''privileged'' \<mapsto> One ''zzz'', ''unprivileged'' \<mapsto> Many []]])
     = Inr ([[(hd [''race''], Fin 1)]], [[(hd [''race''], Fin 0)]])"
proof -
  have h: "simple_detect_groups example_lib (DataFrame example_data) [''race''] None
     = Inr ([[(''race'', Fin 1)]], [[(''race'', Fin 0)]])"
    by (simp add: example_race example_columns simple_detect_groups_def lookup_mapping_def
        detect_fallback_values_def unique_def)
  obtain pg ug where g: "simple_detect_groups example_lib (DataFrame example_data) [''race'']
       (Some [''race'' \<mapsto> [''privileged'' \<mapsto> One ''zzz'', ''unprivileged'' \<mapsto> Many []]])
     = Inr (pg, ug)"
    by (simp add: example_columns simple_detect_groups_def lookup_mapping_def)
  from C10_detected_groups_constant [OF g] g h show ?thesis
    by simp
qed

lemma dropna_id: "\<not> list_ex isna (column df c) \<Longrightarrow> dropna c df = df"
  by (simp add: dropna_def column_def list_ex_iff)

lemma length_rows_dropna: "length (rows (dropna c df)) = length (filter (\<lambda>x. \<not> isna x) (column df c))"
  by (simp add: column_dropna_self [symmetric])

lemma map_explicit_strings:
  assumes col: "column df attr = map CStr strs"
    and pv: "mapping ''privileged'' = Some pv" and uv: "mapping ''unprivileged'' = Some uv"
    and p: "\<exists>s \<in> set strs. s \<in> set (as_list pv)"
    and u: "\<exists>s \<in> set strs. s \<notin> set (as_list pv) \<and> s \<in> set (as_list uv)"
  shows "\<exists>df'. map_explicit lib attr mapping df = Inr df'
           \<and> column df' attr
               = map (\<lambda>s. if s \<in> set (as_list pv) then CNum (Fin 1) else CNum (Fin 0))
                   (filter (\<lambda>s. s \<in> set (as_list pv) \<or> s \<in> set (as_list uv)) strs)
           \<and> length (rows df')
               = length (filter (\<lambda>s. s \<in> set (as_list pv) \<or> s \<in> set (as_list uv)) strs)"
proof -
  define f where "f = (\<lambda>x. if cell_in x (as_list pv) then CNum (Fin 1)
                            else if cell_in x (as_list uv) then CNum (Fin 0) else CNum NaN)"
  define df1 where "df1 = map_column attr f df"
  define df2 where "df2 = (if list_ex isna (column df1 attr) then dropna attr df1 else df1)"
  have df2: "df2 = dropna attr df1"
    by (simp add: df2_def dropna_id)
  have c1: "column df1 attr = map (\<lambda>s. f (CStr s)) strs"
    by (simp add: df1_def column_map_column col comp_def)
  have c2: "column df2 attr
              = map (\<lambda>s. if s \<in> set (as_list pv) then CNum (Fin 1) else CNum (Fin 0))
                   (filter (\<lambda>s. s \<in> set (as_list pv) \<or> s \<in> set (as_list uv)) strs)"
    unfolding df2 column_dropna_self c1
    by (induction strs) (auto simp: f_def isna_def)
  have n: "length (rows df2) = length (filter (\<lambda>s. s \<in> set (as_list pv) \<or> s \<in> set (as_list uv)) strs)"
    using c2 length_column [of df2 attr] by simp
  have bp: "both_present (column df2 attr)"
    unfolding c2 both_present_def using p u by (auto simp: image_iff) 
  from p col have "column df attr \<noteq> []"
    by auto
  then have "rows df \<noteq> []"
    by (simp add: column_def)
  then have ne: "rows (map_column attr f df) \<noteq> []"
    by (simp add: map_column_def)
  have "map_explicit lib attr mapping df =
          (if \<not> both_present (unique (column df2 attr))
           then Inl (HTTPException 400
                  (''After mapping, both privileged (1.0) and unprivileged (0.0) values must exist in ''
                     @ q @ attr @ q @ ''. Found: '' @ fmt_array lib (unique (column df2 attr))))
           else Inr df2)"
    using ne by (simp add: map_explicit_def pv uv Let_def f_def df1_def df2_def)
  with bp have "map_explicit lib attr mapping df = Inr df2"
    by simp
  with c2 n show ?thesis by blast
qed

lemma length_filter_neq: "length (filter (\<lambda>x. x \<noteq> d) xs) = length xs - count_list xs d"
  by (induction xs) (auto simp: Suc_diff_le count_le_length)

text \<open>
  Claim C5. With the explicit mapping \<open>{privileged: ["A"], unprivileged: ["B", "C"]}\<close> for
  the protected attribute, over rows whose values of that attribute are among \<open>A\<close>, \<open>B\<close>,
  \<open>C\<close>, \<open>D\<close> (with \<open>A\<close> and at least one of \<open>B\<close>, \<open>C\<close> present, since the code rejects a
  column that lacks either group), \<open>preprocess_data\<close> returns a frame whose protected
  column is the original one without its \<open>D\<close> entries, \<open>A\<close> mapped to 1.0 and \<open>B\<close>, \<open>C\<close>
  mapped to 0.0; the column holds exactly the values 1.0 and 0.0; and the number of rows
  is the original number minus the number of \<open>D\<close> rows.
\<close>

theorem C5_explicit_mapping_drops_unmapped_rows:
  assumes attr: "attr \<in> set (columns df)"
    and gms: "lookup_mapping gms attr = Some mapping"
    and pv: "mapping ''privileged'' = Some (Many [''A''])"
    and uv: "mapping ''unprivileged'' = Some (Many [''B'', ''C''])"
    and vals: "set (column df attr) \<subseteq> {CStr ''A'', CStr ''B'', CStr ''C'', CStr ''D''}"
    and a: "CStr ''A'' \<in> set (column df attr)"
    and bc: "CStr ''B'' \<in> set (column df attr) \<or> CStr ''C'' \<in> set (column df attr)"
  shows "\<exists>df'. preprocess_data lib df [attr] gms = Inr df'
           \<and> column df' attr
               = map (\<lambda>c. if c = CStr ''A'' then CNum (Fin 1) else CNum (Fin 0))
                   (filter (\<lambda>c. c \<noteq> CStr ''D'') (column df attr))
           \<and> set (column df' attr) = {CNum (Fin 1), CNum (Fin 0)}
           \<and> length (rows df') = length (rows df) - count_list (column df attr) (CStr ''D'')"
proof -
  define strs where "strs = map (to_str lib) (column df attr)"
  have cs: "map CStr strs = column df attr"
    unfolding strs_def map_map using vals by (intro map_idI) auto
  from preprocess_single [OF attr, of lib gms] obtain df2 where
    col: "column df2 attr = map CStr strs"
    and pre: "preprocess_data lib df [attr] gms =
               (case map_explicit lib attr mapping df2 of
                  Inl e \<Rightarrow> Inl (HTTPException 400 (''Error preprocessing data: '' @ str_exn lib e))
                | Inr d \<Rightarrow> Inr d)"
    by (auto simp: encode_protected_def gms strs_def)
  have img: "set (column df attr) = CStr ` set strs"
    unfolding cs [symmetric] by simp
  have mem: "set strs \<subseteq> {''A'', ''B'', ''C'', ''D''}"
    using vals unfolding img by auto
  have inA: "''A'' \<in> set strs"
    using a unfolding img by auto
  have inBC: "''B'' \<in> set strs \<or> ''C'' \<in> set strs"
    using bc unfolding img by auto
  have p: "\<exists>s \<in> set strs. s \<in> set (as_list (Many [''A'']))"
    using inA by (simp add: as_list_def)
  have u: "\<exists>s \<in> set strs. s \<notin> set (as_list (Many [''A''])) \<and> s \<in> set (as_list (Many [''B'', ''C'']))"
  proof -
    from inBC show ?thesis
    proof
      assume "''B'' \<in> set strs"
      then show ?thesis by (intro bexI [of _ "''B''"]) (simp_all add: as_list_def)
    next
      assume "''C'' \<in> set strs"
      then show ?thesis by (intro bexI [of _ "''C''"]) (simp_all add: as_list_def)
    qed
  qed
  from map_explicit_strings [OF col pv uv p u, of lib] obtain df' where
    ok: "map_explicit lib attr mapping df2 = Inr df'"
    and c: "column df' attr
               = map (\<lambda>s. if s \<in> set (as_list (Many [''A''])) then CNum (Fin 1) else CNum (Fin 0))
                   (filter (\<lambda>s. s \<in> set (as_list (Many [''A''])) \<or> s \<in> set (as_list (Many [''B'', ''C'']))) strs)"
    and n: "length (rows df')
               = length (filter (\<lambda>s. s \<in> set (as_list (Many [''A''])) \<or> s \<in> set (as_list (Many [''B'', ''C'']))) strs)"
    by blast
  have flt: "filter (\<lambda>s. s \<in> set (as_list (Many [''A''])) \<or> s \<in> set (as_list (Many [''B'', ''C'']))) strs
              = filter (\<lambda>s. s \<noteq> ''D'') strs"
    using mem by (intro filter_cong) (auto simp: as_list_def)
  have c': "column df' attr
               = map (\<lambda>c. if c = CStr ''A'' then CNum (Fin 1) else CNum (Fin 0))
                   (filter (\<lambda>c. c \<noteq> CStr ''D'') (map CStr strs))"
    unfolding c flt by (simp add: filter_map comp_def as_list_def)
  have e: "length (filter (\<lambda>s. s \<noteq> ''D'') strs)
             = length (filter (\<lambda>c. c \<noteq> CStr ''D'') (map CStr strs))"
    by (simp add: filter_map comp_def)
  have "length (rows df') = length (filter (\<lambda>c. c \<noteq> CStr ''D'') (column df attr))"
    unfolding n flt e cs by (rule refl)
  also have "\<dots> = length (column df attr) - count_list (column df attr) (CStr ''D'')"
    by (rule length_filter_neq)
  finally have n': "length (rows df') = length (rows df) - count_list (column df attr) (CStr ''D'')"
    by simp
  from map_explicit_result [OF ok] have "binary_column df' attr" "both_present (column df' attr)"
    by auto
  then have s: "set (column df' attr) = {CNum (Fin 1), CNum (Fin 0)}"
    by (auto simp: binary_column_def both_present_def)
  from pre ok c' n' s show ?thesis
    by (simp add: cs)
qed

lemma example_abcd_columns: "columns (DataFrame example_abcd) = [''race'', ''label'']"
  by (simp add: DataFrame_def example_abcd_def unique_def)

lemma example_abcd_race:
  "column (DataFrame example_abcd) ''race''
     = [CStr ''A'', CStr ''B'', CStr ''D'', CStr ''C'', CStr ''D'']"
  by (simp add: DataFrame_def example_abcd_def column_def)

text \<open>Five rows with the values \<open>A\<close>, \<open>B\<close>, \<open>D\<close>, \<open>C\<close>, \<open>D\<close>: three rows are left, encoded
  1.0, 0.0, 0.0.\<close>

theorem C5_explicit_mapping_witness:
  "''race'' \<in> set (columns (DataFrame example_abcd))
   \<and> set (column (DataFrame example_abcd) ''race'')
        \<subseteq> {CStr ''A'', CStr ''B'', CStr ''C'', CStr ''D''}
   \<and> (\<exists>df'. preprocess_data example_lib (DataFrame example_abcd) [''race''] example_mapping = Inr df'
          \<and> column df' ''race'' = [CNum (Fin 1), CNum (Fin 0), CNum (Fin 0)]
          \<and> length (rows df') = 3)"
proof -
  have h1: "''race'' \<in> set (columns (DataFrame example_abcd))"
    by (simp add: example_abcd_columns)
  have h2: "lookup_mapping example_mapping ''race''
              = Some [''privileged'' \<mapsto> Many [''A''], ''unprivileged'' \<mapsto> Many [''B'', ''C'']]"
    by (simp add: lookup_mapping_def example_mapping_def)
  have h3: "[''privileged'' \<mapsto> Many [''A''], ''unprivileged'' \<mapsto> Many [''B'', ''C'']] ''privileged''
              = Some (Many [''A''])"
    by simp
  have h4: "[''privileged'' \<mapsto> Many [''A''], ''unprivileged'' \<mapsto> Many [''B'', ''C'']] ''unprivileged''
              = Some (Many [''B'', ''C''])"
    by simp
  have h5: "set (column (DataFrame example_abcd) ''race'')
        \<subseteq> {CStr ''A'', CStr ''B'', CStr ''C'', CStr ''D''}"
    by (simp add: example_abcd_race)
  have h6: "CStr ''A'' \<in> set (column (DataFrame example_abcd) ''race'')"
    by (simp add: example_abcd_race)
  have h7: "CStr ''B'' \<in> set (column (DataFrame example_abcd) ''race'')
            \<or> CStr ''C'' \<in> set (column (DataFrame example_abcd) ''race'')"
    by (simp add: example_abcd_race)
  have len: "length (rows (DataFrame example_abcd)) = 5"
    by (simp add: DataFrame_def example_abcd_def)
  from C5_explicit_mapping_drops_unmapped_rows [OF h1 h2 h3 h4 h5 h6 h7, of example_lib]
  have "\<exists>df'. preprocess_data example_lib (DataFrame example_abcd) [''race''] example_mapping = Inr df'
          \<and> column df' ''race'' = [CNum (Fin 1), CNum (Fin 0), CNum (Fin 0)]
          \<and> length (rows df') = 3"
    by (auto simp: example_abcd_race len)
  with h1 h5 show ?thesis
    by blast
qed

section \<open>The analysis request: results\<close>

lemma sublist_prepend: "sublist x y \<Longrightarrow> sublist x (p @ y)"
  by (metis append_assoc sublist_def)

lemma sublist_postpend: "sublist x y \<Longrightarrow> sublist x (y @ s)"
  by (metis append_assoc sublist_def)

lemma str_exn_HTTP [simp]:
  "str_exn lib (HTTPException status detail) = str_nat status @ '': '' @ detail"
  by (simp add: str_exn_def)

lemma sublist_str_exn: "sublist x detail \<Longrightarrow> sublist x (str_exn lib (HTTPException status detail))"
  unfolding str_exn_HTTP by (intro sublist_prepend)

lemma more_than_two_message_names:
  "sublist attr (more_than_two_message lib attr vals)
   \<and> sublist (fmt_list lib vals) (more_than_two_message lib attr vals)"
proof -
  have "more_than_two_message lib attr vals = (''Protected attribute '' @ q) @ attr @
      (q @ '' has more than two unique values: ''
        @ fmt_list lib vals
        @ ''. Please provide group_mappings for this attribute, e.g. ''
        @ q @ ''group_mappings'' @ q @ '': {'' @ q @ attr @ q @ '': {''
        @ q @ ''privileged'' @ q @ '': '' @ q @ ''VALUE1'' @ q @ '', ''
        @ q @ ''unprivileged'' @ q @ '': '' @ q @ ''VALUE2'' @ q @ ''}}.'')"
    by (simp add: more_than_two_message_def)
  then have a: "sublist attr (more_than_two_message lib attr vals)"
    by (simp only: sublist_appendI)
  have "more_than_two_message lib attr vals =
      (''Protected attribute '' @ q @ attr @ q @ '' has more than two unique values: '')
        @ fmt_list lib vals
        @ (''. Please provide group_mappings for this attribute, e.g. ''
        @ q @ ''group_mappings'' @ q @ '': {'' @ q @ attr @ q @ '': {''
        @ q @ ''privileged'' @ q @ '': '' @ q @ ''VALUE1'' @ q @ '', ''
        @ q @ ''unprivileged'' @ q @ '': '' @ q @ ''VALUE2'' @ q @ ''}}.'')"
    by (simp add: more_than_two_message_def)
  then have b: "sublist (fmt_list lib vals) (more_than_two_message lib attr vals)"
    by (simp only: sublist_appendI)
  show ?thesis by (rule conjI [OF a b])
qed

lemma DataFrame_missing_column:
  assumes "attr \<notin> set (columns (DataFrame data))"
  shows "column (DataFrame data) attr = replicate (length data) (CNum NaN)"
proof -
  from assms have "\<forall>d \<in> set data. attr \<notin> fst ` set d"
    by (auto simp: DataFrame_def)
  then have "\<forall>d \<in> set data. map_of d attr = None"
    by (simp add: map_of_eq_None_iff)
  then have "map (\<lambda>d. case map_of d attr of Some v \<Rightarrow> v | None \<Rightarrow> CNum NaN) data
               = map (\<lambda>d. CNum NaN) data"
    by (intro map_cong) auto
  then show ?thesis
    by (simp add: DataFrame_def column_def comp_def map_replicate_const)
qed

lemma length_unique_replicate: "length (unique (replicate n x)) \<le> 1"
proof -
  have "length (unique (replicate n x)) = card (set (unique (replicate n x)))"
    by (rule distinct_card [OF distinct_unique, symmetric])
  also have "\<dots> \<le> card {x}"
    by (intro card_mono) auto
  finally show ?thesis by simp
qed

lemma many_values_is_column:
  assumes "2 < length (unique (map (to_str lib) (column (DataFrame data) attr)))"
  shows "attr \<in> set (columns (DataFrame data))"
proof (rule ccontr)
  assume "attr \<notin> set (columns (DataFrame data))"
  from DataFrame_missing_column [OF this]
  have "map (to_str lib) (column (DataFrame data) attr)
          = replicate (length data) (to_str lib (CNum NaN))"
    by simp
  with length_unique_replicate [of "length data" "to_str lib (CNum NaN)"] assms
  show False by simp
qed

lemma preprocess_many_values:
  assumes attr: "attr \<in> set (columns df)"
    and nomap: "lookup_mapping gms attr = None"
    and many: "2 < length (unique (map (to_str lib) (column df attr)))"
  shows "preprocess_data lib df (attr # rest) gms =
           Inl (HTTPException 400 (''Error preprocessing data: '' @ str_exn lib
             (HTTPException 400 (more_than_two_message lib attr
                (map CStr (sort (unique (map (to_str lib) (column df attr)))))))))"
proof -
  define df2 where "df2 = coerce_others lib (attr # rest) (astype_str_all lib (attr # rest) df)"
  have col: "column df2 attr = map CStr (map (to_str lib) (column df attr))"
    using attr by (simp add: df2_def coerce_others_column astype_str_all_column)
  have c: "columns df2 = columns df"
    by (simp add: df2_def)
  from map_fallback_strings_many [OF col many, of lib]
  have enc: "encode_all lib gms (attr # rest) df2
          = Inl (HTTPException 400 (more_than_two_message lib attr
                (map CStr (sort (unique (map (to_str lib) (column df attr)))))))"
    using attr by (simp add: c encode_protected_def nomap)
  show ?thesis
    unfolding preprocess_data_def Let_def df2_def [symmetric] enc by simp
qed

text \<open>
  Claim C6. When the first protected attribute of a request has more than two distinct
  values (as the strings preprocessing compares) and no explicit mapping, \<open>analyze_bias\<close>
  ends in an \<open>HTTPException\<close> of status 400, so no response with metric results exists.
  For a dataset record set, that is one with a label column and at least two columns,
  the detail of that exception contains the attribute's name and the printed list of
  the sorted distinct values. (Without a label column the request fails with status 400
  already at the label check, whose detail names the label candidates.)
\<close>

theorem C6_more_than_two_values_rejected:
  assumes many: "2 < length (unique (map (to_str lib) (column (DataFrame (req_data req)) attr)))"
    and attrs: "req_protected_attributes req = attr # rest"
    and nomap: "lookup_mapping (req_group_mappings req) attr = None"
  shows "\<exists>detail. analyze_bias lib aif req = Inl (HTTPException 400 detail)
           \<and> (2 \<le> length (columns (DataFrame (req_data req)))
                \<and> (\<exists>label_col. find_label_column (DataFrame (req_data req)) = Inr label_col)
              \<longrightarrow> sublist attr detail
                  \<and> sublist (fmt_list lib (map CStr (sort (unique (map (to_str lib)
                               (column (DataFrame (req_data req)) attr)))))) detail)"
proof -
  define df where "df = DataFrame (req_data req)"
  define vals where "vals = map CStr (sort (unique (map (to_str lib) (column df attr))))"
  have attr: "attr \<in> set (columns df)"
    using many_values_is_column [OF many] by (simp add: df_def)
  have ne: "req_data req \<noteq> []"
    using many by (auto simp: DataFrame_def column_def)
  have pre: "preprocess_data lib df (attr # rest) (req_group_mappings req) =
           Inl (HTTPException 400 (''Error preprocessing data: '' @ str_exn lib
             (HTTPException 400 (more_than_two_message lib attr vals))))"
    unfolding vals_def
    by (rule preprocess_many_values [OF attr nomap]) (use many in \<open>simp add: df_def\<close>)
  have "\<exists>e. create_dataset lib aif (req_data req) (attr # rest) (req_group_mappings req) = Inl e
         \<and> (2 \<le> length (columns df) \<and> (\<exists>label_col. find_label_column df = Inr label_col)
                \<longrightarrow> e = HTTPException 400 (''Error preprocessing data: '' @ str_exn lib
                      (HTTPException 400 (''Error preprocessing data: '' @ str_exn lib
                         (HTTPException 400 (more_than_two_message lib attr vals))))))"
  proof (cases "length (columns df) < 2")
    case True
    then show ?thesis
      by (simp add: create_dataset_def Let_def df_def [symmetric])
  next
    case False
    show ?thesis
    proof (cases "find_label_column df")
      case (Inl x)
      with False show ?thesis
        by (simp add: create_dataset_def Let_def df_def [symmetric])
    next
      case (Inr label_col)
      with False show ?thesis
        unfolding create_dataset_def Let_def df_def [symmetric] pre
        by simp
    qed
  qed
  then obtain e where cd: "create_dataset lib aif (req_data req) (attr # rest) (req_group_mappings req) = Inl e"
    and shape: "2 \<le> length (columns df) \<and> (\<exists>label_col. find_label_column df = Inr label_col)
                \<longrightarrow> e = HTTPException 400 (''Error preprocessing data: '' @ str_exn lib
                      (HTTPException 400 (''Error preprocessing data: '' @ str_exn lib
                         (HTTPException 400 (more_than_two_message lib attr vals)))))"
    by blast
  have ab: "analyze_bias lib aif req
              = Inl (HTTPException 400 (''Error creating dataset: '' @ str_exn lib e))"
    using ne by (simp add: analyze_bias_def attrs cd)
  have "sublist attr (''Error creating dataset: '' @ str_exn lib e)
        \<and> sublist (fmt_list lib vals) (''Error creating dataset: '' @ str_exn lib e)"
    if "2 \<le> length (columns df) \<and> (\<exists>label_col. find_label_column df = Inr label_col)"
  proof -
    from that shape have e: "e = HTTPException 400 (''Error preprocessing data: '' @ str_exn lib
                      (HTTPException 400 (''Error preprocessing data: '' @ str_exn lib
                         (HTTPException 400 (more_than_two_message lib attr vals)))))"
      by blast
    have "sublist x (''Error creating dataset: '' @ str_exn lib e)"
      if "sublist x (more_than_two_message lib attr vals)" for x
      unfolding e using that
      by (intro sublist_prepend sublist_str_exn)
    with more_than_two_message_names [of attr lib vals] show ?thesis by blast
  qed
  with ab show ?thesis
    unfolding df_def [symmetric] vals_def [symmetric] by blast
qed

lemma example_three_columns: "columns (DataFrame example_three) = [''race'', ''label'']"
  by (simp add: DataFrame_def example_three_def unique_def)

lemma example_three_race:
  "column (DataFrame example_three) ''race'' = [CStr ''b'', CStr ''c'', CStr ''a'']"
  by (simp add: DataFrame_def example_three_def column_def)

text \<open>Three rows with the values \<open>b\<close>, \<open>c\<close>, \<open>a\<close>: the detail names \<open>race\<close> and the values
  in sorted order.\<close>

theorem C6_more_than_two_values_witness:
  "2 < length (unique (map (to_str example_lib) (column (DataFrame example_three) ''race'')))
   \<and> lookup_mapping None ''race'' = None
   \<and> (\<exists>detail. analyze_bias example_lib example_aif (example_request example_three None)
                  = Inl (HTTPException 400 detail)
          \<and> sublist ''race'' detail \<and> sublist ''a b c '' detail)"
proof -
  have h1: "2 < length (unique (map (to_str example_lib)
              (column (DataFrame (req_data (example_request example_three None))) ''race'')))"
    by (simp add: example_request_def example_three_race unique_def)
  have h2: "req_protected_attributes (example_request example_three None) = ''race'' # []"
    by (simp add: example_request_def)
  have h3: "lookup_mapping (req_group_mappings (example_request example_three None)) ''race'' = None"
    by (simp add: example_request_def lookup_mapping_def)
  have shape: "2 \<le> length (columns (DataFrame (req_data (example_request example_three None))))
       \<and> (\<exists>label_col. find_label_column (DataFrame (req_data (example_request example_three None)))
              = Inr label_col)"
    by (simp add: example_request_def example_three_columns find_label_column_def LABEL_CANDIDATES_def)
  have vals: "fmt_list example_lib (map CStr (sort (unique (map (to_str example_lib)
                 (column (DataFrame (req_data (example_request example_three None))) ''race'')))))
              = ''a b c ''"
    by (simp add: example_request_def example_three_race unique_def example_lib_def example_print_def)
  from C6_more_than_two_values_rejected [OF h1 h2 h3, of example_aif] shape
  have "\<exists>detail. analyze_bias example_lib example_aif (example_request example_three None)
                  = Inl (HTTPException 400 detail)
          \<and> sublist ''race'' detail \<and> sublist ''a b c '' detail"
    unfolding vals by blast
  moreover have "2 < length (unique (map (to_str example_lib) (column (DataFrame example_three) ''race'')))"
    using h1 by (simp add: example_request_def)
  moreover have "lookup_mapping None ''race'' = None"
    by (simp add: lookup_mapping_def)
  ultimately show ?thesis by blast
qed

section \<open>The dataset: results\<close>

lemma fold_encode_columns [simp]:
  "columns (fold (\<lambda>col d. if col \<notin> set ex \<and> list_ex is_str (column d col)
                            then coerce_column lib col d else d) cols df) = columns df"
  by (induction cols arbitrary: df) auto

lemma fold_encode_column:
  "a \<in> set ex \<Longrightarrow>
   column (fold (\<lambda>col d. if col \<notin> set ex \<and> list_ex is_str (column d col)
                           then coerce_column lib col d else d) cols df) a
     = column df a"
proof (induction cols arbitrary: df)
  case Nil
  then show ?case by simp
next
  case (Cons c cols)
  show ?case
  proof (cases "c \<in> set ex")
    case True
    with Cons show ?thesis by simp
  next
    case False
    with Cons.prems have "a \<noteq> c" by blast
    with False Cons show ?thesis by (simp add: column_coerce_column_other)
  qed
qed

lemma encode_categoricals_columns [simp]:
  "columns (encode_categoricals lib df ex) = columns df"
  by (simp add: encode_categoricals_def)

lemma encode_categoricals_column:
  "a \<in> set ex \<Longrightarrow> column (encode_categoricals lib df ex) a = column df a"
  by (simp add: encode_categoricals_def fold_encode_column)

lemma preprocess_data_result:
  assumes "preprocess_data lib df attrs gms = Inr df'"
  shows "columns df' = columns df
         \<and> (\<forall>a. a \<in> set attrs \<and> a \<in> set (columns df) \<longrightarrow> binary_column df' a)"
proof -
  define df2 where "df2 = coerce_others lib attrs (astype_str_all lib attrs df)"
  from assms have "encode_all lib gms attrs df2 = Inr df'"
    by (simp add: preprocess_data_def Let_def df2_def [symmetric] split: sum.splits)
  from encode_all_result [OF this] show ?thesis
    by (simp add: df2_def)
qed

lemma preprocess_data_error:
  "preprocess_data lib df attrs gms = Inl e \<Longrightarrow> \<exists>detail. e = HTTPException 400 detail"
  by (auto simp: preprocess_data_def Let_def split: sum.splits)

lemma check_protected_result:
  assumes "check_protected lib df attrs = Inr (priv, unpriv)"
    and "filter (\<lambda>a. a \<in> set (columns df)) attrs = a # rest"
  shows "both_present (column df a)"
  using assms by (auto simp: check_protected_def Let_def both_present_def split: if_splits)

lemma check_protected_error:
  "check_protected lib df attrs = Inl e \<Longrightarrow> \<exists>detail. e = HTTPException 400 detail"
  by (auto simp: check_protected_def Let_def split: list.splits if_splits)

lemma create_dataset_error:
  "create_dataset lib aif data attrs gms = Inl e \<Longrightarrow> \<exists>detail. e = HTTPException 400 detail"
  by (auto simp: create_dataset_def Let_def
      split: if_splits sum.splits prod.splits option.splits dest: check_protected_error)

lemma create_dataset_result:
  assumes "create_dataset lib aif data attrs gms = Inr ds"
  shows "(\<forall>a. a \<in> set attrs \<and> a \<in> set (columns (ds_df ds)) \<longrightarrow> binary_column (ds_df ds) a)
         \<and> (\<forall>a rest. filter (\<lambda>a. a \<in> set (columns (ds_df ds))) attrs = a # rest
                \<longrightarrow> both_present (column (ds_df ds) a))
         \<and> protected_attribute_names ds = attrs"
proof -
  from assms obtain label_col df1 priv unpriv where
    pre: "preprocess_data lib (DataFrame data) attrs gms = Inr df1"
    and chk: "check_protected lib (encode_categoricals lib df1 (attrs @ [label_col])) attrs
                = Inr (priv, unpriv)"
    and ds: "ds_df ds = encode_categoricals lib df1 (attrs @ [label_col])"
            "protected_attribute_names ds = attrs"
    by (auto simp: create_dataset_def Let_def
        split: if_splits sum.splits prod.splits option.splits)
  from preprocess_data_result [OF pre]
  have c: "columns df1 = columns (DataFrame data)"
    and b: "\<And>a. a \<in> set attrs \<Longrightarrow> a \<in> set (columns (DataFrame data)) \<Longrightarrow> binary_column df1 a"
    by auto
  have "binary_column (ds_df ds) a" if "a \<in> set attrs" "a \<in> set (columns (ds_df ds))" for a
    using that b [of a] by (simp add: ds c binary_column_def encode_categoricals_column)
  moreover have "both_present (column (ds_df ds) a)"
    if "filter (\<lambda>a. a \<in> set (columns (ds_df ds))) attrs = a # rest" for a rest
    using check_protected_result [OF chk] that by (simp add: ds)
  ultimately show ?thesis
    using ds by blast
qed

lemma analyze_bias_result:
  assumes "analyze_bias lib aif req = Inr resp"
  shows "\<exists>ds pg ug metrics.
            create_dataset lib aif (req_data req) (req_protected_attributes req)
                (req_group_mappings req) = Inr ds
          \<and> calculate_bias_metrics lib aif ds pg ug = Inr metrics
          \<and> format_results_for_output metrics = Inr (resp_results resp)"
  using assms
  by (auto simp: analyze_bias_def split: if_splits sum.splits prod.splits option.splits) blast+

lemma analyze_bias_dataset_error:
  assumes "create_dataset lib aif (req_data req) (req_protected_attributes req)
             (req_group_mappings req) = Inl e"
  shows "\<exists>detail. analyze_bias lib aif req = Inl (HTTPException 400 detail)"
  using assms by (simp add: analyze_bias_def)

text \<open>
  Claim C4. Preprocessing leaves every protected attribute that is a column with no
  value but 1.0 and 0.0. A dataset that \<open>create_dataset\<close> returns keeps that, and the
  first protected attribute among its columns (the one the check of lines 444 to 456
  looks at) holds both values. Every failure of \<open>create_dataset\<close> is an \<open>HTTPException\<close>
  of status 400, which the request handler passes on as status 400; and a request that
  returns results has computed them on a dataset \<open>create_dataset\<close> returned. So no
  dataset whose protected column lacks 1.0 or 0.0 reaches the metric computation.
\<close>

theorem C4_protected_column_binary:
  "(\<forall>df'. preprocess_data lib df attrs gms = Inr df' \<longrightarrow>
       (\<forall>a \<in> set attrs. a \<in> set (columns df) \<longrightarrow>
            set (column df' a) \<subseteq> {CNum (Fin 1), CNum (Fin 0)}))
   \<and> (\<forall>ds. create_dataset lib aif data attrs gms = Inr ds \<longrightarrow>
         (\<forall>a \<in> set attrs. a \<in> set (columns (ds_df ds)) \<longrightarrow>
              set (column (ds_df ds) a) \<subseteq> {CNum (Fin 1), CNum (Fin 0)})
         \<and> (\<forall>a rest. filter (\<lambda>a. a \<in> set (columns (ds_df ds))) attrs = a # rest \<longrightarrow>
              set (column (ds_df ds) a) = {CNum (Fin 1), CNum (Fin 0)}))
   \<and> (\<forall>e. create_dataset lib aif data attrs gms = Inl e \<longrightarrow>
         (\<exists>detail. e = HTTPException 400 detail))
   \<and> (\<forall>resp. analyze_bias lib aif req = Inr resp \<longrightarrow>
         (\<exists>ds pg ug metrics.
             create_dataset lib aif (req_data req) (req_protected_attributes req)
                 (req_group_mappings req) = Inr ds
           \<and> calculate_bias_metrics lib aif ds pg ug = Inr metrics
           \<and> format_results_for_output metrics = Inr (resp_results resp)))
   \<and> (\<forall>e. create_dataset lib aif (req_data req) (req_protected_attributes req)
              (req_group_mappings req) = Inl e \<longrightarrow>
         (\<exists>detail. analyze_bias lib aif req = Inl (HTTPException 400 detail)))"
proof -
  have p1: "set (column df' a) \<subseteq> {CNum (Fin 1), CNum (Fin 0)}"
    if "preprocess_data lib df attrs gms = Inr df'" "a \<in> set attrs" "a \<in> set (columns df)"
    for df' a
    using preprocess_data_result [OF that(1)] that(2,3) by (simp add: binary_column_def)
  have p2: "set (column (ds_df ds) a) \<subseteq> {CNum (Fin 1), CNum (Fin 0)}"
    if "create_dataset lib aif data attrs gms = Inr ds" "a \<in> set attrs"
       "a \<in> set (columns (ds_df ds))" for ds a
    using create_dataset_result [OF that(1)] that(2,3) by (simp add: binary_column_def)
  have p3: "set (column (ds_df ds) a) = {CNum (Fin 1), CNum (Fin 0)}"
    if ok: "create_dataset lib aif data attrs gms = Inr ds"
      and f: "filter (\<lambda>a. a \<in> set (columns (ds_df ds))) attrs = a # rest" for ds a rest
  proof -
    from f have "a \<in> set (filter (\<lambda>a. a \<in> set (columns (ds_df ds))) attrs)" by simp
    then have "a \<in> set attrs" "a \<in> set (columns (ds_df ds))" by auto
    from p2 [OF ok this] create_dataset_result [OF ok] f show ?thesis
      by (auto simp: both_present_def)
  qed
  from p1 p2 p3 show ?thesis
    by (intro conjI allI impI ballI)
       (blast intro: create_dataset_error analyze_bias_result analyze_bias_dataset_error)+
qed

lemma example_dataset:
  "\<exists>ds. create_dataset example_lib example_aif example_data [''race''] None = Inr ds
        \<and> columns (ds_df ds) = [''race'', ''label'']
        \<and> column (ds_df ds) ''race'' = [CNum (Fin 0), CNum (Fin 1), CNum (Fin 0)]"
  by (simp add: eval_defs example_data_def)

lemma example_one_rejected:
  "\<exists>e. create_dataset example_lib example_aif example_one [''race''] None = Inl e"
  by (simp add: eval_defs example_one_def)

text \<open>
  On the worked data set a dataset is built and its \<open>race\<close> column holds exactly 1.0 and
  0.0; rows with one value only are refused with status 400, by \<open>create_dataset\<close> and by
  the request handler.
\<close>

theorem C4_protected_column_witness:
  "(\<exists>ds. create_dataset example_lib example_aif example_data [''race''] None = Inr ds
        \<and> set (column (ds_df ds) ''race'') = {CNum (Fin 1), CNum (Fin 0)})
   \<and> (\<exists>detail. create_dataset example_lib example_aif example_one [''race''] None
                  = Inl (HTTPException 400 detail))
   \<and> (\<exists>detail. analyze_bias example_lib example_aif (example_request example_one None)
                  = Inl (HTTPException 400 detail))"
proof -
  note t1 = C4_protected_column_binary
    [where lib = example_lib and aif = example_aif and data = example_data
       and attrs = "[''race'']" and gms = None]
  note t2 = C4_protected_column_binary
    [where lib = example_lib and aif = example_aif and data = example_one
       and attrs = "[''race'']" and gms = None
       and req = "example_request example_one None"]
  from example_dataset obtain ds where
    ds: "create_dataset example_lib example_aif example_data [''race''] None = Inr ds"
    and c: "columns (ds_df ds) = [''race'', ''label'']"
    by blast
  have f: "filter (\<lambda>a. a \<in> set (columns (ds_df ds))) [''race''] = ''race'' # []"
    by (simp add: c)
  from t1 ds f have a: "set (column (ds_df ds) ''race'') = {CNum (Fin 1), CNum (Fin 0)}"
    by blast
  from example_one_rejected obtain e where
    e: "create_dataset example_lib example_aif example_one [''race''] None = Inl e"
    by blast
  with t2 obtain detail where d: "e = HTTPException 400 detail"
    by blast
  have r: "create_dataset example_lib example_aif
             (req_data (example_request example_one None))
             (req_protected_attributes (example_request example_one None))
             (req_group_mappings (example_request example_one None)) = Inl e"
    using e by (simp add: example_request_def)
  with t2 obtain detail' where
    "analyze_bias example_lib example_aif (example_request example_one None)
       = Inl (HTTPException 400 detail')"
    by blast
  with ds a e d show ?thesis
    by blast
qed

section \<open>Batch processing: results\<close>

lemma is_data_file_examples:
  "\<not> is_data_file ''input.zip''" "is_data_file ''a.csv''" "is_data_file ''b.csv''"
  by (simp_all add: is_data_file_def suffix_to_prefix)

lemma busy_wait_Done: "busy_wait (Done r) = Some r"
  by (subst busy_wait.simps) simp

lemma busy_wait_Pending: "busy_wait Pending = None"
proof (cases "busy_wait (Pending :: 'a future)")
  case None
  then show ?thesis .
next
  case (Some y)
  have "(Pending :: 'a future) \<noteq> Pending"
  proof (rule busy_wait.raw_induct [where P = "\<lambda>x y. x \<noteq> Pending", OF _ Some])
    fix f and x :: "'a future" and r
    assume "\<And>x y. f x = Some y \<Longrightarrow> x \<noteq> Pending"
      and "(case x of Pending \<Rightarrow> f x | Done result \<Rightarrow> Some result) = Some r"
    then show "x \<noteq> Pending"
      by (cases x) auto
  qed
  then show ?thesis by simp
qed

text \<open>
  Called while the loop is running, \<open>run_bias_analysis\<close> does not return; called
  otherwise, it returns the results of the analysis or its one error entry.
\<close>

lemma run_bias_analysis_running:
  "run_bias_analysis lib aif True df attr gms = None"
  by (simp add: run_bias_analysis_def busy_wait_Pending)

lemma run_bias_analysis_idle:
  "run_bias_analysis lib aif False df attr gms =
     Some (case analyze_bias lib aif
                  \<lparr>req_data = to_dict_records df,
                   req_protected_attributes = [attr],
                   req_privileged_groups = None,
                   req_unprivileged_groups = None,
                   req_group_mappings = gms\<rparr> of
             Inr result \<Rightarrow> resp_results result
           | Inl e \<Rightarrow> [[(''error'', JStr (str_exn lib e))]])"
  by (simp add: run_bias_analysis_def split: sum.splits)

lemma folder_loop_unreadable:
  "is_data_file fname \<Longrightarrow>
   folder_loop lib aif attr gm_text ((fname, Inl e) # rest) acc = Some (Inl e)"
  by simp

lemma folder_loop_skip:
  "\<not> is_data_file fname \<Longrightarrow>
   folder_loop lib aif attr gm_text ((fname, c) # rest) acc
     = folder_loop lib aif attr gm_text rest acc"
  by simp

text \<open>
  What the \<open>try\<close> of lines 656 to 663 does achieve: a mapping text that \<open>eval\<close> rejects
  gives the file an error entry, and the loop goes on to the next name.
\<close>

lemma folder_loop_eval_error:
  assumes "is_data_file fname" and "t \<noteq> []" and "py_eval lib t = Inl e"
  shows "folder_loop lib aif attr (Some t) ((fname, Inr df) # rest) acc
           = folder_loop lib aif attr (Some t) rest
               (acc @ [[(''file'', JStr fname), (''error'', JStr (str_exn lib e))]])"
  using assms by simp

text \<open>
  A readable data file whose mapping text is absent, empty or accepted by \<open>eval\<close> reaches
  \<open>run_bias_analysis\<close>, and the handler does not return.
\<close>

lemma folder_loop_analysis_reached:
  assumes "is_data_file fname"
    and "gm_text = None \<or> gm_text = Some [] \<or> (\<exists>t m. gm_text = Some t \<and> py_eval lib t = Inr m)"
  shows "folder_loop lib aif attr gm_text ((fname, Inr df) # rest) acc = None"
  using assms by (auto simp: run_bias_analysis_running)

text \<open>
  Claim C2 fails on this input: \<open>pd.read_csv\<close> runs before the \<open>try\<close>, so the exception of
  the unreadable \<open>a.csv\<close> ends the whole request. No result entry is written for
  \<open>a.csv\<close>, and \<open>b.csv\<close> is never analysed.
\<close>

theorem C2_unreadable_file_aborts_batch:
  "analyze_folder example_lib example_aif ''upload.zip'' (Inr example_listing) ''race'' None
     = Some (Inl (LibraryError ''No columns to parse from file''))"
  by (simp add: analyze_folder_def example_listing_def is_data_file_examples
      suffix_to_prefix lower_char_def ascii_lower_def ascii_upper_def)

section \<open>The scraper: results\<close>

lemma scrape_entries_filter:
  "scrape_entries env cutoff max_results model_id utype (filter has_timestamp es) count
     = scrape_entries env cutoff max_results model_id utype es count"
  by (induction es arbitrary: count)
     (auto simp: has_timestamp_def Let_def split: option.splits sum.splits)

lemma scrape_entries_env:
  "scrape_entries (env\<lparr>parse_feed := pf\<rparr>) cutoff max_results model_id utype es count
     = scrape_entries env cutoff max_results model_id utype es count"
  by (induction es arbitrary: count)
     (auto simp: Let_def split: option.splits sum.splits)

lemma scrape_types_filter:
  "scrape_types (env\<lparr>parse_feed := (\<lambda>url. filter has_timestamp (parse_feed env url))\<rparr>)
       cutoff max_results m ts
     = scrape_types env cutoff max_results m ts"
proof (induction ts)
  case Nil
  then show ?case by (cases m) simp
next
  case (Cons t ts)
  obtain model_id model_name provider where m: "m = (model_id, model_name, provider)"
    by (cases m)
  obtain utype phrase where t: "t = (utype, phrase)"
    by (cases t)
  show ?case
    using Cons
    by (simp add: m t scrape_entries_env scrape_entries_filter rss_url_def split: sum.splits)
qed

lemma scrape_models_filter:
  "scrape_models (env\<lparr>parse_feed := (\<lambda>url. filter has_timestamp (parse_feed env url))\<rparr>)
       cutoff max_results ms
     = scrape_models env cutoff max_results ms"
  by (induction ms) (simp_all add: scrape_types_filter split: sum.splits)

lemma scrape_entries_emitted:
  "scrape_entries env cutoff max_results model_id utype es count = Inr rs \<Longrightarrow>
   \<forall>r \<in> set rs. \<exists>e \<in> set es. emitted_from env cutoff model_id utype e r"
proof (induction es arbitrary: count rs)
  case Nil
  then show ?case by simp
next
  case (Cons e es)
  show ?case
  proof (cases "published_parsed e")
    case None
    with Cons.prems have "scrape_entries env cutoff max_results model_id utype es count = Inr rs"
      by simp
    from Cons.IH [OF this] show ?thesis by auto
  next
    case (Some t)
    show ?thesis
    proof (cases "to_datetime env t")
      case None
      with Some Cons.prems show ?thesis by simp
    next
      case pub: (Some published)
      show ?thesis
      proof (cases "published < cutoff")
        case True
        with Some pub Cons.prems
        have "scrape_entries env cutoff max_results model_id utype es count = Inr rs"
          by simp
        from Cons.IH [OF this] show ?thesis by auto
      next
        case False
        with Some pub Cons.prems obtain ttl lnk where
          ttl: "entry_title e = Some ttl" and lnk: "entry_link e = Some lnk"
          by (auto simp: Let_def split: option.splits)
        define r where "r = \<lparr>frontier_model_id = model_id, title = ttl,
            description = clean_summary
              (if entry_summary e \<noteq> [] then entry_summary e else entry_description e),
            update_type = utype, source_url = lnk, update_date = published\<rparr>"
        have er: "emitted_from env cutoff model_id utype e r"
          using Some pub False ttl lnk by (simp add: emitted_from_def r_def)
        from Some pub False ttl lnk Cons.prems
        have "rs = [r] \<or> (\<exists>rs'. scrape_entries env cutoff max_results model_id utype es
                                    (count + 1) = Inr rs' \<and> rs = r # rs')"
          by (auto simp: Let_def r_def split: if_splits sum.splits)
        then show ?thesis
        proof
          assume "rs = [r]"
          with er show ?thesis by simp
        next
          assume "\<exists>rs'. scrape_entries env cutoff max_results model_id utype es (count + 1)
                          = Inr rs' \<and> rs = r # rs'"
          then obtain rs' where
            rec: "scrape_entries env cutoff max_results model_id utype es (count + 1) = Inr rs'"
            and rs: "rs = r # rs'"
            by blast
          from Cons.IH [OF rec] er rs show ?thesis by auto
        qed
      qed
    qed
  qed
qed

lemma scrape_types_emitted:
  "scrape_types env cutoff max_results (model_id, model_name, provider) ts = Inr rs \<Longrightarrow>
   \<forall>r \<in> set rs. \<exists>(utype, phrase) \<in> set ts.
      \<exists>e \<in> set (parse_feed env (rss_url env model_name provider phrase)).
        emitted_from env cutoff model_id utype e r"
proof (induction ts arbitrary: rs)
  case Nil
  then show ?case by simp
next
  case (Cons t ts)
  obtain utype phrase where t: "t = (utype, phrase)"
    by (cases t)
  from Cons.prems obtain rs1 rs2 where
    a: "scrape_entries env cutoff max_results model_id utype
          (parse_feed env (rss_url env model_name provider phrase)) 0 = Inr rs1"
    and b: "scrape_types env cutoff max_results (model_id, model_name, provider) ts = Inr rs2"
    and rs: "rs = rs1 @ rs2"
    by (auto simp: t split: sum.splits)
  from scrape_entries_emitted [OF a] Cons.IH [OF b] show ?case
    unfolding rs t by auto
qed

lemma scrape_models_emitted:
  "scrape_models env cutoff max_results ms = Inr rs \<Longrightarrow>
   \<forall>r \<in> set rs. \<exists>(model_id, model_name, provider) \<in> set ms.
      \<exists>(utype, phrase) \<in> set update_types.
        \<exists>e \<in> set (parse_feed env (rss_url env model_name provider phrase)).
          emitted_from env cutoff model_id utype e r"
proof (induction ms arbitrary: rs)
  case Nil
  then show ?case by simp
next
  case (Cons m ms)
  obtain model_id model_name provider where m: "m = (model_id, model_name, provider)"
    by (cases m)
  from Cons.prems obtain rs1 rs2 where
    a: "scrape_types env cutoff max_results (model_id, model_name, provider) update_types = Inr rs1"
    and b: "scrape_models env cutoff max_results ms = Inr rs2"
    and rs: "rs = rs1 @ rs2"
    by (auto simp: m split: sum.splits)
  from scrape_types_emitted [OF a] Cons.IH [OF b] show ?case
    unfolding rs m by auto
qed

text \<open>
  Claim C8. An entry without a parseable publication time adds nothing and raises
  nothing: the scraper's outcome, records or exception, is the outcome on the feeds with
  those entries removed, and the loop on such an entry alone returns no record. Every
  record the scraper returns comes from an entry of one of the fetched feeds that has a
  publication time, converted to an instant not earlier than the cut-off, and carries
  that entry's title and link.
\<close>

theorem C8_entries_without_timestamp_skipped:
  "scrape_model_updates
      (env\<lparr>parse_feed := (\<lambda>url. filter (\<lambda>e. published_parsed e \<noteq> None) (parse_feed env url))\<rparr>)
      models now days max_results
     = scrape_model_updates env models now days max_results
   \<and> (\<forall>e. published_parsed e = None \<longrightarrow>
          scrape_entries env cutoff max_results model_id utype [e] count = Inr [])
   \<and> (\<forall>rs. scrape_model_updates env models now days max_results = Inr rs \<longrightarrow>
          (\<forall>r \<in> set rs. \<exists>(model_id, model_name, provider) \<in> set models.
              \<exists>(utype, phrase) \<in> set update_types.
                \<exists>e \<in> set (parse_feed env (rss_url env model_name provider phrase)).
                  \<exists>t. published_parsed e = Some t
                    \<and> to_datetime env t = Some (update_date r)
                    \<and> now - days * microseconds_per_day \<le> update_date r
                    \<and> entry_title e = Some (title r)
                    \<and> entry_link e = Some (source_url r)
                    \<and> frontier_model_id r = model_id
                    \<and> update_type r = utype))"
proof -
  have f: "(\<lambda>e. published_parsed e \<noteq> None) = has_timestamp"
    by (simp add: has_timestamp_def fun_eq_iff)
  have a: "scrape_model_updates
      (env\<lparr>parse_feed := (\<lambda>url. filter (\<lambda>e. published_parsed e \<noteq> None) (parse_feed env url))\<rparr>)
      models now days max_results
     = scrape_model_updates env models now days max_results"
    unfolding f by (simp add: scrape_model_updates_def scrape_models_filter)
  have b: "\<forall>e. published_parsed e = None \<longrightarrow>
          scrape_entries env cutoff max_results model_id utype [e] count = Inr []"
    by simp
  have c: "\<forall>rs. scrape_model_updates env models now days max_results = Inr rs \<longrightarrow>
          (\<forall>r \<in> set rs. \<exists>(model_id, model_name, provider) \<in> set models.
              \<exists>(utype, phrase) \<in> set update_types.
                \<exists>e \<in> set (parse_feed env (rss_url env model_name provider phrase)).
                  \<exists>t. published_parsed e = Some t
                    \<and> to_datetime env t = Some (update_date r)
                    \<and> now - days * microseconds_per_day \<le> update_date r
                    \<and> entry_title e = Some (title r)
                    \<and> entry_link e = Some (source_url r)
                    \<and> frontier_model_id r = model_id
                    \<and> update_type r = utype)"
    using scrape_models_emitted [of env "now - days * microseconds_per_day" max_results models]
    unfolding scrape_model_updates_def emitted_from_def by blast
  from a b c show ?thesis by blast
qed

lemma example_scrape:
  "scrape_model_updates example_env [(7, ''GPT'', ''OpenAI'')] 86400000100 1 5
     = Inr [\<lparr>frontier_model_id = 7, title = ''new'', description = ''Fresh news.'',
             update_type = ''security'', source_url = ''http://x/new'', update_date = 500\<rparr>,
            \<lparr>frontier_model_id = 7, title = ''new'', description = ''Fresh news.'',
             update_type = ''feature'', source_url = ''http://x/new'', update_date = 500\<rparr>]"
  by (simp add: scrape_model_updates_def update_types_def rss_url_def example_env_def
      example_feed_def clean_summary_def py_strip_def is_space_def microseconds_per_day_def)

text \<open>The worked feed: the entry without a time and the old entry are left out, with or
  without the entry without a time in the feed.\<close>

theorem C8_entries_without_timestamp_witness:
  "scrape_model_updates
      (example_env\<lparr>parse_feed :=
         (\<lambda>url. filter (\<lambda>e. published_parsed e \<noteq> None) (parse_feed example_env url))\<rparr>)
      [(7, ''GPT'', ''OpenAI'')] 86400000100 1 5
     = Inr [\<lparr>frontier_model_id = 7, title = ''new'', description = ''Fresh news.'',
             update_type = ''security'', source_url = ''http://x/new'', update_date = 500\<rparr>,
            \<lparr>frontier_model_id = 7, title = ''new'', description = ''Fresh news.'',
             update_type = ''feature'', source_url = ''http://x/new'', update_date = 500\<rparr>]
   \<and> published_parsed (hd example_feed) = None
   \<and> scrape_entries example_env 100 5 7 ''security'' [hd example_feed] 0 = Inr []"
proof -
  note t = C8_entries_without_timestamp_skipped
    [where env = example_env and models = "[(7, ''GPT'', ''OpenAI'')]" and now = 86400000100
       and days = 1 and max_results = 5 and cutoff = 100 and model_id = 7
       and utype = "''security''" and count = 0]
  have h: "published_parsed (hd example_feed) = None"
    by (simp add: example_feed_def)
  from t h have "scrape_entries example_env 100 5 7 ''security'' [hd example_feed] 0 = Inr []"
    by blast
  with t h example_scrape show ?thesis
    by simp
qed

section \<open>The upsert writer: results\<close>

lemma source_url_do_update [simp]: "source_url (do_update x r) = source_url x"
  by (simp add: do_update_def)

lemma frontier_model_id_do_update [simp]: "frontier_model_id (do_update x r) = frontier_model_id x"
  by (simp add: do_update_def)





lemma pages_single:
  assumes "xs \<noteq> []" and "length xs \<le> n"
  shows "pages n xs = [xs]"
proof -
  from assms have "0 < n" by (cases xs) auto
  with assms show ?thesis
    by (subst pages.simps, subst pages.simps) simp
qed






lemma do_update_twice [simp]: "do_update (do_update x r1) r2 = do_update x r2"
  by (simp add: do_update_def)










lemma source_url_example_rec [simp]: "source_url (example_rec url ttl model) = url"
  by (simp add: example_rec_def)

lemma title_example_rec [simp]: "title (example_rec url ttl model) = ttl"
  by (simp add: example_rec_def)



lemma pages_Nil [simp]: "pages n [] = []"
  by (subst pages.simps) simp






text \<open>
  Outside the amended claim: a statement whose rows repeat a \<open>source_url\<close> is refused,
  and the call ends in the exception before \<open>conn.commit()\<close>. For a batch of at most 100
  records that is the case exactly when two of its records share a \<open>source_url\<close>.
\<close>

lemma insert_into_db_repeated_key:
  assumes "records \<noteq> []" and "length records \<le> 100"
    and "\<not> distinct (map source_url records)"
  shows "insert_into_db conn records =
           (conn\<lparr>statements := statements conn @ [records]\<rparr>,
            Inl (LibraryError ''ON CONFLICT DO UPDATE command cannot affect row a second time''))"
proof -
  have pg: "pages 100 records = [records]"
    using assms(1,2) by (rule pages_single)
  show ?thesis
    unfolding insert_into_db_def execute_values_def pg
    using assms(1,3) by (simp add: exec_insert_def)
qed

end
